theory Spec2Isabelle
  imports Main "HOL-Library.Word"
begin

section \<open>Win32 types and constants used by the shell extension\<close>

text \<open>
  \<open>wchar_t\<close> is a 16-bit code unit. A wide string is the list of code units found at an
  \<open>LPWSTR\<close>; as in C, the string it denotes ends just before the first NUL code unit (or at
  the end of the list), which is what \<open>wcslen\<close> measures.
\<close>

type_synonym wchar = "16 word"
type_synonym wstring = "wchar list"
type_synonym HRESULT = "32 word"
type_synonym LONG = "32 word"
type_synonym ULONG = "32 word"
type_synonym DWORD = "32 word"

text \<open>The wide literal \<open>L"..."\<close> of an ASCII text.\<close>

definition L :: "string \<Rightarrow> wstring" where
  "L s = map of_char s"

text \<open>The two characters that cannot be written inside a literal.\<close>

abbreviation BACKSLASH :: wchar where "BACKSLASH \<equiv> 0x5C"
abbreviation DQUOTE :: wchar where "DQUOTE \<equiv> 0x22"

text \<open>The string at a pointer, and its length.\<close>

definition wcs :: "wstring \<Rightarrow> wstring" where
  "wcs s = takeWhile (\<lambda>c. c \<noteq> 0) s"

definition wcslen :: "wstring \<Rightarrow> nat" where
  "wcslen s = length (wcs s)"

text \<open>
  \<open>towupper\<close> in the "C" locale, the locale of a process that never calls \<open>setlocale\<close>:
  the letters a to z go to A to Z, every other code unit is unchanged.
\<close>

definition towupper :: "wchar \<Rightarrow> wchar" where
  "towupper c = (if 0x61 \<le> c \<and> c \<le> 0x7A then c - 0x20 else c)"

definition MAX_PATH :: nat where
  "MAX_PATH = 260"

text \<open>An \<open>HRESULT\<close> is a signed 32-bit value; negative values are failures.\<close>

definition SUCCEEDED :: "HRESULT \<Rightarrow> bool" where
  "SUCCEEDED hr = (0 \<le> sint hr)"

definition FAILED :: "HRESULT \<Rightarrow> bool" where
  "FAILED hr = (sint hr < 0)"

definition S_OK :: HRESULT where "S_OK = 0"
definition S_FALSE :: HRESULT where "S_FALSE = 1"
definition E_NOINTERFACE :: HRESULT where "E_NOINTERFACE = 0x80004002"
definition E_POINTER :: HRESULT where "E_POINTER = 0x80004003"
definition E_FAIL :: HRESULT where "E_FAIL = 0x80004005"
definition E_OUTOFMEMORY :: HRESULT where "E_OUTOFMEMORY = 0x8007000E"
definition E_INVALIDARG :: HRESULT where "E_INVALIDARG = 0x80070057"
definition CLASS_E_NOAGGREGATION :: HRESULT where "CLASS_E_NOAGGREGATION = 0x80040110"
definition STRSAFE_E_INSUFFICIENT_BUFFER :: HRESULT where
  "STRSAFE_E_INSUFFICIENT_BUFFER = 0x8007007A"
definition STRSAFE_E_INVALID_PARAMETER :: HRESULT where
  "STRSAFE_E_INVALID_PARAMETER = 0x80070057"
definition STRSAFE_MAX_CCH :: nat where "STRSAFE_MAX_CCH = 2147483647"

text \<open>
  An output parameter is a pointer the caller passes: either null or the address of storage
  of the caller. What a function stores through it is part of the function's result:
  \<open>None\<close> when nothing was stored, \<open>Some v\<close> when \<open>v\<close> was.
\<close>

datatype pointer = nullptr | ptr

subsection \<open>strsafe.h\<close>

text \<open>
  \<open>StringCchCopy(pszDest, cchDest, pszSrc)\<close> copies the string at \<open>pszSrc\<close> into a buffer of
  \<open>cchDest\<close> code units, truncating it to \<open>cchDest - 1\<close> code units so that the terminator
  always fits. The result is the status and the string left in the destination
  (\<open>None\<close>: the destination was not written).
\<close>

definition StringCchCopy :: "nat \<Rightarrow> wstring \<Rightarrow> HRESULT \<times> wstring option" where
  "StringCchCopy cchDest pszSrc =
     (if cchDest = 0 \<or> STRSAFE_MAX_CCH < cchDest then (STRSAFE_E_INVALID_PARAMETER, None)
      else if wcslen pszSrc < cchDest then (S_OK, Some (wcs pszSrc))
      else (STRSAFE_E_INSUFFICIENT_BUFFER, Some (take (cchDest - 1) (wcs pszSrc))))"

text \<open>
  \<open>StringCchPrintf(pszDest, cchDest, format, ...)\<close>, given the text the format expands to:
  the same truncation rule as \<open>StringCchCopy\<close>.
\<close>

definition StringCchPrintf :: "nat \<Rightarrow> wstring \<Rightarrow> HRESULT \<times> wstring option" where
  "StringCchPrintf cchDest formatted = StringCchCopy cchDest formatted"

text \<open>
  A local array \<open>wchar_t buf[N] = {}\<close> handed to a callee as an output buffer: it still holds
  the empty string when the callee stored nothing.
\<close>

definition local_buffer :: "wstring option \<Rightarrow> wstring" where
  "local_buffer written = (case written of None \<Rightarrow> [] | Some s \<Rightarrow> s)"

text \<open>
  The COM allocator hands out a block whose contents are whatever the environment left
  there; a callee that stores nothing leaves them as they were.
\<close>

definition allocated_buffer :: "wstring \<Rightarrow> wstring option \<Rightarrow> wstring" where
  "allocated_buffer block written = (case written of None \<Rightarrow> wcs block | Some s \<Rightarrow> s)"

section \<open>The host's selection: IShellItemArray and IShellItem\<close>

text \<open>
  The selection is an object of the host. The command object sees it only through the
  results of three calls, so an item and an array are the records of those results:
  the status each call returns and the value it stores through its output pointer.
  \<open>GetDisplayName\<close> may store a null name; \<open>GetItemAt\<close> stores an item that is read only
  when the call succeeded.
\<close>

datatype SIGDN =
    SIGDN_NORMALDISPLAY
  | SIGDN_PARENTRELATIVEPARSING
  | SIGDN_DESKTOPABSOLUTEPARSING
  | SIGDN_PARENTRELATIVEEDITING
  | SIGDN_DESKTOPABSOLUTEEDITING
  | SIGDN_FILESYSPATH
  | SIGDN_URL
  | SIGDN_PARENTRELATIVEFORADDRESSBAR
  | SIGDN_PARENTRELATIVE
  | SIGDN_PARENTRELATIVEFORUI

record IShellItem =
  GetDisplayName :: "SIGDN \<Rightarrow> HRESULT \<times> wstring option"

record IShellItemArray =
  GetCount :: "HRESULT \<times> DWORD"
  GetItemAt :: "DWORD \<Rightarrow> HRESULT \<times> IShellItem"

section \<open>ExplorerCommand: src/DiskBench.ShellExtension.Cpp/ExplorerCommand.cpp\<close>

subsection \<open>GetSelectedDrivePath\<close>

text \<open>
  The calls of \<open>OutputDebugString\<close> and \<open>LogMessage\<close> write diagnostics only and are left
  out of every function below.
\<close>

text \<open>
  The result is the returned \<open>HRESULT\<close> and the string stored at \<open>pszPath\<close>, if any.
  The calls that free the name and release the item have no effect on either and are left out.
\<close>

definition GetSelectedDrivePath ::
  "IShellItemArray option \<Rightarrow> pointer \<Rightarrow> nat \<Rightarrow> HRESULT \<times> wstring option" where
  "GetSelectedDrivePath psiItemArray pszPath cchPath =
     (case psiItemArray of
        None \<Rightarrow> (E_INVALIDARG, None)
      | Some arr \<Rightarrow>
          if pszPath = nullptr \<or> cchPath = 0 then (E_INVALIDARG, None)
          else
            let (hrCount, count) = GetCount arr in
            if FAILED hrCount \<or> count = 0 then (S_FALSE, None)
            else
              let (hrItem, psi) = GetItemAt arr 0 in
              if FAILED hrItem then (E_FAIL, None)
              else
                let (hr, pszName) = GetDisplayName psi SIGDN_FILESYSPATH in
                (case pszName of
                   None \<Rightarrow> (S_FALSE, None)
                 | Some name \<Rightarrow>
                     if SUCCEEDED hr then
                       (let nameLen = wcslen name in
                        if 2 \<le> nameLen \<and> name ! 1 = of_char CHR '':'' then
                          if nameLen = 2 \<or>
                             (nameLen = 3 \<and>
                               (name ! 2 = BACKSLASH \<or> name ! 2 = of_char CHR ''/''))
                          then
                            (let drivePath =
                                   [towupper (name ! 0), of_char CHR '':'', BACKSLASH, 0]
                             in (S_OK, snd (StringCchCopy cchPath drivePath)))
                          else (S_FALSE, None)
                        else (S_FALSE, None))
                     else (S_FALSE, None)))"


subsection \<open>The registry\<close>

text \<open>
  The configuration store: under each predefined root a key is found by its path and holds
  named values, each the code units stored for it. \<open>RegOpenKeyEx\<close> succeeds when the key
  exists. \<open>RegQueryValueEx\<close> is called with a buffer and its size in bytes: it fails when
  the handle is null, when the value is missing and when the data is larger than the buffer;
  otherwise it copies the data to the front of the buffer.
\<close>

datatype HKEY_root = HKEY_LOCAL_MACHINE | HKEY_CURRENT_USER

type_synonym registry_key = "wstring \<rightharpoonup> wchar list"
type_synonym registry = "HKEY_root \<Rightarrow> wstring \<rightharpoonup> registry_key"
type_synonym HKEY = "registry_key option"

definition ERROR_SUCCESS :: LONG where "ERROR_SUCCESS = 0"
definition ERROR_FILE_NOT_FOUND :: LONG where "ERROR_FILE_NOT_FOUND = 2"
definition ERROR_INVALID_HANDLE :: LONG where "ERROR_INVALID_HANDLE = 6"
definition ERROR_MORE_DATA :: LONG where "ERROR_MORE_DATA = 234"

definition RegOpenKeyEx :: "registry \<Rightarrow> HKEY_root \<Rightarrow> wstring \<Rightarrow> LONG \<times> HKEY" where
  "RegOpenKeyEx reg root subKey =
     (case reg root subKey of
        None \<Rightarrow> (ERROR_FILE_NOT_FOUND, None)
      | Some k \<Rightarrow> (ERROR_SUCCESS, Some k))"

definition RegQueryValueEx :: "HKEY \<Rightarrow> wstring \<Rightarrow> wchar list \<Rightarrow> nat \<Rightarrow> LONG \<times> wchar list" where
  "RegQueryValueEx hKey valueName buffer cbData =
     (case hKey of
        None \<Rightarrow> (ERROR_INVALID_HANDLE, buffer)
      | Some k \<Rightarrow>
          (case k valueName of
             None \<Rightarrow> (ERROR_FILE_NOT_FOUND, buffer)
           | Some data \<Rightarrow>
               if cbData < 2 * length data then (ERROR_MORE_DATA, buffer)
               else (ERROR_SUCCESS, data @ drop (length data) buffer)))"

definition CONFIG_REG_PATH :: wstring where
  "CONFIG_REG_PATH =
     L ''SOFTWARE'' @ [BACKSLASH] @ L ''DiskBench'' @ [BACKSLASH] @ L ''ShellExtension''"

subsection \<open>ReadExePathFromRegistry and GetExePath\<close>

text \<open>
  \<open>ReadExePathFromRegistry\<close> is called by \<open>GetExePath\<close> only, which has checked the output
  pointer; its result is the \<open>HRESULT\<close> and the string stored at \<open>pszExePath\<close>, if any.
  The local \<open>buffer\<close> is \<open>MAX_PATH\<close> zeroed code units, \<open>sizeof(buffer)\<close> is twice that.
\<close>

definition ReadExePathFromRegistry :: "registry \<Rightarrow> nat \<Rightarrow> HRESULT \<times> wstring option" where
  "ReadExePathFromRegistry reg cchExePath =
     (let (result, hKey) = RegOpenKeyEx reg HKEY_LOCAL_MACHINE CONFIG_REG_PATH;
          (result, hKey) =
             (if result \<noteq> ERROR_SUCCESS
              then RegOpenKeyEx reg HKEY_CURRENT_USER CONFIG_REG_PATH
              else (result, hKey))
      in if result \<noteq> ERROR_SUCCESS then (E_FAIL, None)
         else
           let (result, buffer) =
                 RegQueryValueEx hKey (L ''ExePath'') (replicate MAX_PATH 0) (MAX_PATH * 2)
           in if result \<noteq> ERROR_SUCCESS then (E_FAIL, None)
              else (S_OK, snd (StringCchCopy cchExePath buffer)))"

definition GetExePath :: "registry \<Rightarrow> pointer \<Rightarrow> nat \<Rightarrow> HRESULT \<times> wstring option" where
  "GetExePath reg pszExePath cchExePath =
     (if pszExePath = nullptr \<or> cchExePath = 0 then (E_INVALIDARG, None)
      else ReadExePathFromRegistry reg cchExePath)"

subsection \<open>The environment of a call\<close>

text \<open>
  What the methods read from the process besides their arguments: the registry, the global
  \<open>g_hInstance\<close> set by \<open>DllMain\<close> (null, or the module, given by the file name the loader holds
  for it), the COM allocator (for a size in bytes: null, or a block with some contents) and
  the process launcher (application name and command line to success).
\<close>

record environment =
  registry :: registry
  g_hInstance :: "wstring option"
  CoTaskMemAlloc :: "nat \<Rightarrow> wstring option"
  CreateProcess :: "wstring \<Rightarrow> wstring \<Rightarrow> bool"

text \<open>
  \<open>GetModuleFileNameW(hModule, buffer, nSize)\<close>: the file name when it fits with its
  terminator, and its length; otherwise the name truncated, and \<open>nSize\<close>.
\<close>

definition GetModuleFileNameW :: "wstring \<Rightarrow> nat \<Rightarrow> nat \<times> wstring" where
  "GetModuleFileNameW hModule nSize =
     (if wcslen hModule < nSize then (wcslen hModule, wcs hModule)
      else (nSize, take (nSize - 1) (wcs hModule)))"

subsection \<open>GetIcon\<close>

text \<open>The result is the \<open>HRESULT\<close> and the pointer stored at \<open>ppszIcon\<close>, if any
  (\<open>Some None\<close>: a null pointer was stored).\<close>

definition GetIcon ::
  "environment \<Rightarrow> IShellItemArray option \<Rightarrow> pointer \<Rightarrow> HRESULT \<times> wstring option option" where
  "GetIcon env psiItemArray ppszIcon =
     (if ppszIcon = nullptr then (E_POINTER, None)
      else
        let (hrExe, written) = GetExePath (registry env) ptr MAX_PATH;
            exePath = local_buffer written;
            hasExePath = SUCCEEDED hrExe;
            (hasDllPath, dllPath) =
               (case g_hInstance env of
                  None \<Rightarrow> (False, [])
                | Some hInstance \<Rightarrow>
                    let (len, path) = GetModuleFileNameW hInstance MAX_PATH
                    in (0 < len \<and> len < MAX_PATH, path));
            iconPath = (if hasExePath then Some exePath
                        else if hasDllPath then Some dllPath else None)
        in case iconPath of
             Some path \<Rightarrow>
               (let len = wcslen path + 10 in
                case CoTaskMemAlloc env (len * 2) of
                  None \<Rightarrow> (E_OUTOFMEMORY, Some None)
                | Some block \<Rightarrow>
                    (S_OK, Some (Some (allocated_buffer block
                              (snd (StringCchPrintf len (wcs path @ L '',0'')))))))
           | None \<Rightarrow> (S_FALSE, Some None))"

subsection \<open>GetState\<close>

datatype EXPCMDSTATE =
  ECS_ENABLED | ECS_DISABLED | ECS_HIDDEN | ECS_CHECKBOX | ECS_CHECKED | ECS_RADIOCHECK

definition GetState ::
  "IShellItemArray option \<Rightarrow> bool \<Rightarrow> pointer \<Rightarrow> HRESULT \<times> EXPCMDSTATE option" where
  "GetState psiItemArray fOkToBeSlow pCmdState =
     (if pCmdState = nullptr then (E_POINTER, None)
      else if psiItemArray = None then (S_OK, Some ECS_HIDDEN)
      else
        let (hr, written) = GetSelectedDrivePath psiItemArray ptr MAX_PATH;
            drivePath = local_buffer written
        in if SUCCEEDED hr \<and> 0 < wcslen drivePath then (S_OK, Some ECS_ENABLED)
           else (S_OK, Some ECS_HIDDEN))"

subsection \<open>Invoke\<close>

text \<open>
  The result is the \<open>HRESULT\<close> and the calls of \<open>CreateProcess\<close> made, each with its
  application name and its command line.
\<close>

definition Invoke ::
  "environment \<Rightarrow> IShellItemArray option \<Rightarrow> pointer \<Rightarrow> HRESULT \<times> (wstring \<times> wstring) list" where
  "Invoke env psiItemArray pbc =
     (if psiItemArray = None then (E_POINTER, [])
      else
        let (hrDrive, written) = GetSelectedDrivePath psiItemArray ptr MAX_PATH;
            drivePath = local_buffer written
        in if FAILED hrDrive \<or> wcslen drivePath = 0 then (S_FALSE, [])
           else
             let (hrExe, written) = GetExePath (registry env) ptr MAX_PATH;
                 exePath = local_buffer written
             in if FAILED hrExe then (E_FAIL, [])
                else
                  let cmdLine = local_buffer (snd (StringCchPrintf (MAX_PATH * 2)
                        ([DQUOTE] @ wcs exePath @ [DQUOTE] @ L '' --quick '' @
                         [DQUOTE] @ wcs drivePath @ [DQUOTE])))
                  in if CreateProcess env exePath cmdLine
                     then (S_OK, [(exePath, cmdLine)])
                     else (E_FAIL, [(exePath, cmdLine)]))"

section \<open>The copy under src/DiskBench/DiskBench.ShellExtension.Cpp\<close>

text \<open>
  The repository holds a second \<open>ExplorerCommand.cpp\<close>, without logging. Its functions carry
  the suffix \<open>_DiskBench\<close> here. Three of them differ from the ones above: the validator
  takes the two-character form only and copies the name as it is, the registry is read in
  the machine-wide root only, and \<open>GetIcon\<close> has no module-path fallback.
\<close>

definition GetSelectedDrivePath_DiskBench ::
  "IShellItemArray option \<Rightarrow> pointer \<Rightarrow> nat \<Rightarrow> HRESULT \<times> wstring option" where
  "GetSelectedDrivePath_DiskBench psiItemArray pszPath cchPath =
     (case psiItemArray of
        None \<Rightarrow> (E_INVALIDARG, None)
      | Some arr \<Rightarrow>
          if pszPath = nullptr \<or> cchPath = 0 then (E_INVALIDARG, None)
          else
            let (hrCount, count) = GetCount arr in
            if FAILED hrCount \<or> count = 0 then (S_FALSE, None)
            else
              let (hrItem, psi) = GetItemAt arr 0 in
              if FAILED hrItem then (E_FAIL, None)
              else
                let (hr, pszName) = GetDisplayName psi SIGDN_FILESYSPATH in
                (case pszName of
                   None \<Rightarrow> (S_FALSE, None)
                 | Some name \<Rightarrow>
                     if SUCCEEDED hr then
                       if wcslen name = 2 \<and> name ! 1 = of_char CHR '':''
                       then (S_OK, snd (StringCchCopy cchPath name))
                       else (S_FALSE, None)
                     else (S_FALSE, None)))"

definition ReadExePathFromRegistry_DiskBench ::
  "registry \<Rightarrow> nat \<Rightarrow> HRESULT \<times> wstring option" where
  "ReadExePathFromRegistry_DiskBench reg cchExePath =
     (let (result, hKey) = RegOpenKeyEx reg HKEY_LOCAL_MACHINE CONFIG_REG_PATH
      in if result \<noteq> ERROR_SUCCESS then (E_FAIL, None)
         else
           let (result, buffer) =
                 RegQueryValueEx hKey (L ''ExePath'') (replicate MAX_PATH 0) (MAX_PATH * 2)
           in if result \<noteq> ERROR_SUCCESS then (E_FAIL, None)
              else (S_OK, snd (StringCchCopy cchExePath buffer)))"

definition GetExePath_DiskBench :: "registry \<Rightarrow> pointer \<Rightarrow> nat \<Rightarrow> HRESULT \<times> wstring option" where
  "GetExePath_DiskBench reg pszExePath cchExePath =
     (if pszExePath = nullptr \<or> cchExePath = 0 then (E_INVALIDARG, None)
      else ReadExePathFromRegistry_DiskBench reg cchExePath)"

definition GetIcon_DiskBench ::
  "environment \<Rightarrow> IShellItemArray option \<Rightarrow> pointer \<Rightarrow> HRESULT \<times> wstring option option" where
  "GetIcon_DiskBench env psiItemArray ppszIcon =
     (if ppszIcon = nullptr then (E_POINTER, None)
      else
        let (hrExe, written) = GetExePath_DiskBench (registry env) ptr MAX_PATH;
            exePath = local_buffer written
        in if SUCCEEDED hrExe then
             (let len = wcslen exePath + 10 in
              case CoTaskMemAlloc env (len * 2) of
                None \<Rightarrow> (E_OUTOFMEMORY, Some None)
              | Some block \<Rightarrow>
                  (S_OK, Some (Some (allocated_buffer block
                            (snd (StringCchPrintf len (wcs exePath @ L '',0'')))))))
           else (S_FALSE, Some None))"

section \<open>Object lifetime: reference counting and the class factory\<close>

text \<open>
  Instances of \<open>ExplorerCommand\<close> live in a heap: a cell per address ever handed out,
  holding the object while it is alive. \<open>delete this\<close> runs the destructor and frees the
  cell; the heap keeps the addresses for which that happened, in order. A method called
  on an address that holds no live object has no defined result (\<open>None\<close>).
  \<open>InterlockedIncrement\<close> and \<open>InterlockedDecrement\<close> act on a 32-bit \<open>LONG\<close> and wrap
  around; one call at a time is modelled.
\<close>

record ExplorerCommand =
  m_refCount :: LONG

record heap =
  cells :: "ExplorerCommand option list"
  destructed :: "nat list"

definition object_at :: "heap \<Rightarrow> nat \<Rightarrow> ExplorerCommand option" where
  "object_at h p = (if p < length (cells h) then cells h ! p else None)"

definition store_object :: "nat \<Rightarrow> ExplorerCommand \<Rightarrow> heap \<Rightarrow> heap" where
  "store_object p obj h = h\<lparr>cells := (cells h)[p := Some obj]\<rparr>"

definition delete_object :: "nat \<Rightarrow> heap \<Rightarrow> heap" where
  "delete_object p h = h\<lparr>cells := (cells h)[p := None], destructed := destructed h @ [p]\<rparr>"

text \<open>
  \<open>new (std::nothrow) ExplorerCommand()\<close>: null when no memory is available, otherwise an
  object at a fresh address, with the constructor's \<open>m_refCount(1)\<close>.
\<close>

definition new_ExplorerCommand :: "bool \<Rightarrow> heap \<Rightarrow> nat option \<times> heap" where
  "new_ExplorerCommand available h =
     (if available
      then (Some (length (cells h)), h\<lparr>cells := cells h @ [Some \<lparr>m_refCount = 1\<rparr>]\<rparr>)
      else (None, h))"

definition AddRef :: "nat \<Rightarrow> heap \<Rightarrow> (ULONG \<times> heap) option" where
  "AddRef this h =
     (case object_at h this of
        None \<Rightarrow> None
      | Some obj \<Rightarrow>
          let refCount = m_refCount obj + 1
          in Some (refCount, store_object this (obj\<lparr>m_refCount := refCount\<rparr>) h))"

definition Release :: "nat \<Rightarrow> heap \<Rightarrow> (ULONG \<times> heap) option" where
  "Release this h =
     (case object_at h this of
        None \<Rightarrow> None
      | Some obj \<Rightarrow>
          let refCount = m_refCount obj - 1;
              h' = store_object this (obj\<lparr>m_refCount := refCount\<rparr>) h
          in Some (refCount, if refCount = 0 then delete_object this h' else h'))"

record GUID =
  Data1 :: "32 word"
  Data2 :: "16 word"
  Data3 :: "16 word"
  Data4 :: "8 word list"

definition IID_IUnknown :: GUID where
  "IID_IUnknown =
     \<lparr>Data1 = 0x00000000, Data2 = 0x0000, Data3 = 0x0000,
      Data4 = [0xC0, 0x00, 0x00, 0x00, 0x00, 0x00, 0x00, 0x46]\<rparr>"

definition IID_IClassFactory :: GUID where
  "IID_IClassFactory =
     \<lparr>Data1 = 0x00000001, Data2 = 0x0000, Data3 = 0x0000,
      Data4 = [0xC0, 0x00, 0x00, 0x00, 0x00, 0x00, 0x00, 0x46]\<rparr>"

definition IID_IExplorerCommand :: GUID where
  "IID_IExplorerCommand =
     \<lparr>Data1 = 0xa08ce4d0, Data2 = 0xfa25, Data3 = 0x44ab,
      Data4 = [0xb5, 0x7c, 0xc7, 0xb1, 0xc3, 0x23, 0xe0, 0xb9]\<rparr>"

text \<open>
  \<open>QueryInterface\<close> and \<open>CreateInstance\<close>: the result is the \<open>HRESULT\<close>, the interface
  pointer last stored at \<open>ppv\<close>, if any (\<open>Some None\<close>: null; \<open>Some (Some p)\<close>: the object at
  \<open>p\<close>), and the heap.
\<close>

definition QueryInterface ::
  "nat \<Rightarrow> GUID \<Rightarrow> pointer \<Rightarrow> heap \<Rightarrow> ((HRESULT \<times> nat option option) \<times> heap) option" where
  "QueryInterface this riid ppv h =
     (case object_at h this of
        None \<Rightarrow> None
      | Some obj \<Rightarrow>
          if ppv = nullptr then Some ((E_POINTER, None), h)
          else if riid = IID_IUnknown \<or> riid = IID_IExplorerCommand then
            (case AddRef this h of
               None \<Rightarrow> None
             | Some (refCount, h') \<Rightarrow> Some ((S_OK, Some (Some this)), h'))
          else Some ((E_NOINTERFACE, Some None), h))"

text \<open>\<open>ClassFactory::CreateInstance\<close> of dllmain.cpp, which reads and writes nothing of
  the factory itself; \<open>available\<close> says whether \<open>new\<close> finds memory.\<close>

definition CreateInstance ::
  "bool \<Rightarrow> pointer \<Rightarrow> GUID \<Rightarrow> pointer \<Rightarrow> heap \<Rightarrow> ((HRESULT \<times> nat option option) \<times> heap) option"
  where
  "CreateInstance available pUnkOuter riid ppv h =
     (if ppv = nullptr then Some ((E_POINTER, None), h)
      else if pUnkOuter \<noteq> nullptr then Some ((CLASS_E_NOAGGREGATION, Some None), h)
      else
        case new_ExplorerCommand available h of
          (None, h1) \<Rightarrow> Some ((E_OUTOFMEMORY, Some None), h1)
        | (Some pCommand, h1) \<Rightarrow>
            (case QueryInterface pCommand riid ppv h1 of
               None \<Rightarrow> None
             | Some ((hr, written), h2) \<Rightarrow>
                 (case Release pCommand h2 of
                    None \<Rightarrow> None
                  | Some (refCount, h3) \<Rightarrow>
                      Some ((hr, (case written of None \<Rightarrow> Some None | Some v \<Rightarrow> Some v)), h3))))"

text \<open>A client making \<open>n\<close> calls of one method on one instance, one after the other.\<close>

fun calls :: "(nat \<Rightarrow> heap \<Rightarrow> (ULONG \<times> heap) option) \<Rightarrow> nat \<Rightarrow> nat \<Rightarrow> heap \<Rightarrow> heap option" where
  "calls method 0 this h = Some h"
| "calls method (Suc n) this h =
     (case method this h of
        None \<Rightarrow> None
      | Some (r, h') \<Rightarrow> calls method n this h')"

section \<open>Concrete inputs\<close>

text \<open>
  A well-behaved selection holding the given paths, one item each; a registry with the given
  keys at the configuration path of the two roots; a key holding one \<open>ExePath\<close> value
  (stored with its terminator, as a string value is); an environment in which allocation
  and process creation succeed, and the same without memory.
\<close>

definition item_of_path :: "wstring \<Rightarrow> IShellItem" where
  "item_of_path p = \<lparr>GetDisplayName = (\<lambda>sigdn. (S_OK, Some p))\<rparr>"

definition selection_of_paths :: "wstring list \<Rightarrow> IShellItemArray" where
  "selection_of_paths ps =
     \<lparr>GetCount = (S_OK, of_nat (length ps)),
      GetItemAt = (\<lambda>i. if unat i < length ps then (S_OK, item_of_path (ps ! unat i))
                        else (E_FAIL, item_of_path []))\<rparr>"

definition registry_of :: "registry_key option \<Rightarrow> registry_key option \<Rightarrow> registry" where
  "registry_of machine user =
     (\<lambda>root subKey.
        if subKey = CONFIG_REG_PATH
        then (case root of HKEY_LOCAL_MACHINE \<Rightarrow> machine | HKEY_CURRENT_USER \<Rightarrow> user)
        else None)"

definition key_with_ExePath :: "wchar list \<Rightarrow> registry_key" where
  "key_with_ExePath d = (\<lambda>valueName. if valueName = L ''ExePath'' then Some d else None)"

definition tool_exe :: wstring where
  "tool_exe = L ''C:'' @ [BACKSLASH] @ L ''DiskBench.exe''"

definition shell_dll :: wstring where
  "shell_dll = L ''C:'' @ [BACKSLASH] @ L ''DiskBench.ShellExtension.dll''"

definition environment_of :: "registry \<Rightarrow> environment" where
  "environment_of reg =
     \<lparr>registry = reg, g_hInstance = Some shell_dll,
      CoTaskMemAlloc = (\<lambda>cb. Some (replicate (cb div 2) 0)),
      CreateProcess = (\<lambda>app cmd. True)\<rparr>"

definition no_memory :: "environment \<Rightarrow> environment" where
  "no_memory env = env\<lparr>CoTaskMemAlloc := (\<lambda>cb. None)\<rparr>"

definition drive_D :: IShellItemArray where
  "drive_D = selection_of_paths [L ''D:'' @ [BACKSLASH]]"

definition configured_machine :: registry where
  "configured_machine = registry_of (Some (key_with_ExePath (tool_exe @ [0]))) None"

definition configured_user :: registry where
  "configured_user = registry_of None (Some (key_with_ExePath (tool_exe @ [0])))"

definition unconfigured :: registry where
  "unconfigured = registry_of None None"

definition empty_heap :: heap where
  "empty_heap = \<lparr>cells = [], destructed = []\<rparr>"

definition one_instance :: heap where
  "one_instance = \<lparr>cells = [Some \<lparr>m_refCount = 1\<rparr>], destructed = []\<rparr>"

definition long_value :: "wchar list" where
  "long_value = replicate 300 (of_char CHR ''A'') @ [0]"

section \<open>Basic facts\<close>

lemma FAILED_constants:
  "\<not> FAILED S_OK" "\<not> FAILED S_FALSE" "FAILED E_FAIL" "FAILED E_POINTER"
  "FAILED E_INVALIDARG" "FAILED E_OUTOFMEMORY" "FAILED E_NOINTERFACE"
  "FAILED CLASS_E_NOAGGREGATION"
  by (simp_all add: FAILED_def S_OK_def S_FALSE_def E_FAIL_def E_POINTER_def E_INVALIDARG_def
      E_OUTOFMEMORY_def E_NOINTERFACE_def CLASS_E_NOAGGREGATION_def)

lemma SUCCEEDED_iff: "SUCCEEDED hr \<longleftrightarrow> \<not> FAILED hr"
  by (auto simp: SUCCEEDED_def FAILED_def)

lemma SUCCEEDED_constants: "SUCCEEDED S_OK" "SUCCEEDED S_FALSE" "\<not> SUCCEEDED E_FAIL"
  by (simp_all add: SUCCEEDED_iff FAILED_constants)

lemma HRESULT_distinct:
  "S_OK \<noteq> S_FALSE" "S_OK \<noteq> E_FAIL" "S_FALSE \<noteq> E_FAIL" "S_OK \<noteq> E_INVALIDARG"
  "S_FALSE \<noteq> E_INVALIDARG" "E_FAIL \<noteq> E_INVALIDARG" "S_OK \<noteq> E_OUTOFMEMORY"
  "S_FALSE \<noteq> E_OUTOFMEMORY"
  by (simp_all add: S_OK_def S_FALSE_def E_FAIL_def E_INVALIDARG_def E_OUTOFMEMORY_def)

lemma wcslen_pos_nth0: "0 < wcslen s \<Longrightarrow> s ! 0 \<noteq> 0"
  by (cases s) (auto simp: wcslen_def wcs_def split: if_splits)

lemma towupper_eq_0_iff: "towupper c = 0 \<longleftrightarrow> c = 0"
  by (auto simp: towupper_def)

lemma towupper_lower:
  assumes "of_char CHR ''a'' \<le> c" and "c \<le> of_char CHR ''z''"
  shows "towupper c = c - 0x20"
    and "of_char CHR ''A'' \<le> c - 0x20" and "c - 0x20 \<le> of_char CHR ''Z''"
  using assms by (simp_all add: towupper_def) unat_arith+

lemma towupper_lower_unat:
  assumes "of_char CHR ''a'' \<le> c" and "c \<le> of_char CHR ''z''"
  shows "unat (c - 0x20 :: wchar) + 32 = unat c"
  using assms by simp unat_arith

lemma towupper_other:
  assumes "\<not> (of_char CHR ''a'' \<le> c \<and> c \<le> of_char CHR ''z'')"
  shows "towupper c = c"
  using assms by (auto simp: towupper_def)

lemma wcs_no_nul: "0 \<notin> set (wcs s)"
  by (auto simp: wcs_def dest: set_takeWhileD)

lemma wcs_idem: "0 \<notin> set s \<Longrightarrow> wcs s = s"
  by (auto simp: wcs_def)

lemma wcslen_no_nul: "0 \<notin> set s \<Longrightarrow> wcslen s = length s"
  by (simp add: wcslen_def wcs_idem)

lemma StringCchCopy_no_nul: "StringCchCopy cch src = (hr, Some s) \<Longrightarrow> 0 \<notin> set s"
  using wcs_no_nul[of src]
  by (auto simp: StringCchCopy_def split: if_splits dest: in_set_takeD)

lemma StringCchCopy_length: "StringCchCopy cch src = (hr, Some s) \<Longrightarrow> length s < cch"
  by (auto simp: StringCchCopy_def wcslen_def split: if_splits)

lemma StringCchCopy_token:
  assumes "c \<noteq> 0" "4 \<le> cch" "cch \<le> STRSAFE_MAX_CCH"
  shows "StringCchCopy cch [c, of_char CHR '':'', BACKSLASH, 0] =
           (S_OK, Some [c, of_char CHR '':'', BACKSLASH])"
  using assms by (simp add: StringCchCopy_def wcslen_def wcs_def)

lemma L_quick: "0 \<notin> set (L '' --quick '')" "length (L '' --quick '') = 9"
  by (simp_all add: L_def)

section \<open>The validator\<close>

lemma GetSelectedDrivePath_first_item:
  assumes "\<not> FAILED (fst (GetCount arr))" "snd (GetCount arr) \<noteq> 0"
    and "\<not> FAILED (fst (GetItemAt arr 0))"
    and "GetDisplayName (snd (GetItemAt arr 0)) SIGDN_FILESYSPATH = (hr, Some name)"
    and "SUCCEEDED hr" and "cchPath \<noteq> 0"
  shows "GetSelectedDrivePath (Some arr) ptr cchPath =
     (if 2 \<le> wcslen name \<and> name ! 1 = of_char CHR '':'' \<and>
         (wcslen name = 2 \<or>
            (wcslen name = 3 \<and> (name ! 2 = BACKSLASH \<or> name ! 2 = of_char CHR ''/'')))
      then (S_OK, snd (StringCchCopy cchPath
                         [towupper (name ! 0), of_char CHR '':'', BACKSLASH, 0]))
      else (S_FALSE, None))"
  using assms
  by (auto simp: GetSelectedDrivePath_def split_beta Let_def)

lemma GetSelectedDrivePath_drive_root:
  assumes "SUCCEEDED (fst (GetCount arr))" and "snd (GetCount arr) \<noteq> 0"
    and "SUCCEEDED (fst (GetItemAt arr 0))"
    and "GetDisplayName (snd (GetItemAt arr 0)) SIGDN_FILESYSPATH = (hr, Some name)"
    and "SUCCEEDED hr"
    and "name ! 1 = of_char CHR '':''"
    and "wcslen name = 2 \<or>
         (wcslen name = 3 \<and> (name ! 2 = BACKSLASH \<or> name ! 2 = of_char CHR ''/''))"
  shows "GetSelectedDrivePath (Some arr) ptr MAX_PATH =
           (S_OK, Some [towupper (name ! 0), of_char CHR '':'', BACKSLASH])"
proof -
  have len: "2 \<le> wcslen name" using assms(7) by auto
  then have "name ! 0 \<noteq> 0" by (intro wcslen_pos_nth0) simp
  then have nz: "towupper (name ! 0) \<noteq> 0" by (simp add: towupper_eq_0_iff)
  have "StringCchCopy MAX_PATH [towupper (name ! 0), of_char CHR '':'', BACKSLASH, 0] =
        (S_OK, Some [towupper (name ! 0), of_char CHR '':'', BACKSLASH])"
    using nz by (intro StringCchCopy_token) (simp_all add: MAX_PATH_def STRSAFE_MAX_CCH_def)
  moreover have "GetSelectedDrivePath (Some arr) ptr MAX_PATH =
      (S_OK, snd (StringCchCopy MAX_PATH
                    [towupper (name ! 0), of_char CHR '':'', BACKSLASH, 0]))"
    using assms len
    by (subst GetSelectedDrivePath_first_item[where hr = hr and name = name])
       (auto simp: SUCCEEDED_iff MAX_PATH_def)
  ultimately show ?thesis by simp
qed

lemma GetSelectedDrivePath_not_drive_root:
  assumes "SUCCEEDED (fst (GetItemAt arr 0))"
    and "GetDisplayName (snd (GetItemAt arr 0)) SIGDN_FILESYSPATH = (hr, Some name)"
    and "3 < wcslen name \<or> wcslen name < 2 \<or> name ! 1 \<noteq> of_char CHR '':''"
  shows "GetSelectedDrivePath (Some arr) ptr MAX_PATH = (S_FALSE, None)"
  using assms
  by (auto simp: GetSelectedDrivePath_def split_beta Let_def SUCCEEDED_iff MAX_PATH_def)

lemma GetSelectedDrivePath_DiskBench_first_item:
  assumes "\<not> FAILED (fst (GetCount arr))" "snd (GetCount arr) \<noteq> 0"
    and "\<not> FAILED (fst (GetItemAt arr 0))"
    and "GetDisplayName (snd (GetItemAt arr 0)) SIGDN_FILESYSPATH = (hr, Some name)"
    and "SUCCEEDED hr"
  shows "GetSelectedDrivePath_DiskBench (Some arr) ptr MAX_PATH =
     (if wcslen name = 2 \<and> name ! 1 = of_char CHR '':''
      then (S_OK, Some (wcs name)) else (S_FALSE, None))"
  using assms
  by (auto simp: GetSelectedDrivePath_DiskBench_def split_beta Let_def MAX_PATH_def
       StringCchCopy_def STRSAFE_MAX_CCH_def)

lemma GetSelectedDrivePath_Some:
  assumes "GetSelectedDrivePath psiItemArray pszPath cchPath = (hr, Some T)"
  shows "0 \<notin> set T \<and> length T \<le> 3 \<and> hr = S_OK"
proof -
  from assms obtain c
    where c: "snd (StringCchCopy cchPath [c, of_char CHR '':'', BACKSLASH, 0]) = Some T"
      and hr: "hr = S_OK"
    by (auto simp: GetSelectedDrivePath_def split_beta Let_def
        split: option.splits if_splits)
  then obtain hr'
    where "StringCchCopy cchPath [c, of_char CHR '':'', BACKSLASH, 0] = (hr', Some T)"
    by (cases "StringCchCopy cchPath [c, of_char CHR '':'', BACKSLASH, 0]") auto
  then have "0 \<notin> set T" and "length T \<le> wcslen [c, of_char CHR '':'', BACKSLASH, 0]"
    by (auto simp: StringCchCopy_no_nul StringCchCopy_def wcslen_def split: if_splits)
  moreover have "wcslen [c, of_char CHR '':'', BACKSLASH, 0] \<le> 3"
    by (simp add: wcslen_def wcs_def)
  ultimately show ?thesis using hr by simp
qed

lemma selection_of_paths_first:
  "fst (GetCount (selection_of_paths [p])) = S_OK"
  "snd (GetCount (selection_of_paths [p])) \<noteq> 0"
  "fst (GetItemAt (selection_of_paths [p]) 0) = S_OK"
  "GetDisplayName (snd (GetItemAt (selection_of_paths [p]) 0)) SIGDN_FILESYSPATH = (S_OK, Some p)"
  by (simp_all add: selection_of_paths_def item_of_path_def)


section \<open>Claims about the validator\<close>

text \<open>
  Claim C1. Take a selection whose first item has a filesystem path: \<open>GetCount\<close> succeeds
  with a count other than zero, \<open>GetItemAt(0)\<close> succeeds and \<open>GetDisplayName\<close> succeeds
  with the name \<open>name\<close>. If the second character of the name is a colon and the name is
  either exactly two characters long, or exactly three with a backslash or a slash as the
  third, then \<open>GetSelectedDrivePath\<close>, called as \<open>GetState\<close> and \<open>Invoke\<close> call it (a
  buffer of \<open>MAX_PATH\<close> code units), returns \<open>S_OK\<close> and stores the three-character
  token: the first character in upper case, a colon, a backslash. Upper case means: a first
  character from a to z is stored lowered by 32 code points, which is a letter from A to Z;
  any other first character is stored as it is. The witness runs it on "c:/", on "C:", on
  "C:" with a backslash, and on "a:" and "z:": the first three give "C:" with a backslash,
  the last two "A:" and "Z:" with a backslash.
\<close>

theorem GetSelectedDrivePath_accepts_drive_root:
  assumes "SUCCEEDED (fst (GetCount arr))" and "snd (GetCount arr) \<noteq> 0"
    and "SUCCEEDED (fst (GetItemAt arr 0))"
    and "GetDisplayName (snd (GetItemAt arr 0)) SIGDN_FILESYSPATH = (hr, Some name)"
    and "SUCCEEDED hr"
    and "name ! 1 = of_char CHR '':''"
    and "wcslen name = 2 \<or>
         (wcslen name = 3 \<and> (name ! 2 = BACKSLASH \<or> name ! 2 = of_char CHR ''/''))"
  shows "GetSelectedDrivePath (Some arr) ptr MAX_PATH =
           (S_OK, Some [towupper (name ! 0), of_char CHR '':'', BACKSLASH])
       \<and> (of_char CHR ''a'' \<le> name ! 0 \<and> name ! 0 \<le> of_char CHR ''z'' \<longrightarrow>
            GetSelectedDrivePath (Some arr) ptr MAX_PATH =
              (S_OK, Some [name ! 0 - 0x20, of_char CHR '':'', BACKSLASH]) \<and>
            of_char CHR ''A'' \<le> name ! 0 - 0x20 \<and> name ! 0 - 0x20 \<le> of_char CHR ''Z'' \<and>
            unat (name ! 0 - 0x20) + 32 = unat (name ! 0))
       \<and> (\<not> (of_char CHR ''a'' \<le> name ! 0 \<and> name ! 0 \<le> of_char CHR ''z'') \<longrightarrow>
            GetSelectedDrivePath (Some arr) ptr MAX_PATH =
              (S_OK, Some [name ! 0, of_char CHR '':'', BACKSLASH]))"
proof -
  have T: "GetSelectedDrivePath (Some arr) ptr MAX_PATH =
           (S_OK, Some [towupper (name ! 0), of_char CHR '':'', BACKSLASH])"
    using assms by (rule GetSelectedDrivePath_drive_root)
  have lower: "GetSelectedDrivePath (Some arr) ptr MAX_PATH =
              (S_OK, Some [name ! 0 - 0x20, of_char CHR '':'', BACKSLASH]) \<and>
            of_char CHR ''A'' \<le> name ! 0 - 0x20 \<and> name ! 0 - 0x20 \<le> of_char CHR ''Z'' \<and>
            unat (name ! 0 - 0x20) + 32 = unat (name ! 0)"
    if "of_char CHR ''a'' \<le> name ! 0 \<and> name ! 0 \<le> of_char CHR ''z''"
    using that T towupper_lower[of "name ! 0"] towupper_lower_unat[of "name ! 0"] by simp
  have other: "GetSelectedDrivePath (Some arr) ptr MAX_PATH =
              (S_OK, Some [name ! 0, of_char CHR '':'', BACKSLASH])"
    if "\<not> (of_char CHR ''a'' \<le> name ! 0 \<and> name ! 0 \<le> of_char CHR ''z'')"
    using that T towupper_other[of "name ! 0"] by simp
  from T lower other show ?thesis by blast
qed

theorem GetSelectedDrivePath_accepts_drive_root_witness:
  "wcslen (L ''c:/'') = 3 \<and> L ''c:/'' ! 1 = of_char CHR '':'' \<and> L ''c:/'' ! 2 = of_char CHR ''/''
   \<and> GetSelectedDrivePath (Some (selection_of_paths [L ''c:/''])) ptr MAX_PATH =
       (S_OK, Some (L ''C:'' @ [BACKSLASH]))
   \<and> GetSelectedDrivePath (Some (selection_of_paths [L ''C:''])) ptr MAX_PATH =
       (S_OK, Some (L ''C:'' @ [BACKSLASH]))
   \<and> GetSelectedDrivePath (Some (selection_of_paths [L ''C:'' @ [BACKSLASH]])) ptr MAX_PATH =
       (S_OK, Some (L ''C:'' @ [BACKSLASH]))
   \<and> GetSelectedDrivePath (Some (selection_of_paths [L ''a:''])) ptr MAX_PATH =
       (S_OK, Some (L ''A:'' @ [BACKSLASH]))
   \<and> GetSelectedDrivePath (Some (selection_of_paths [L ''z:''])) ptr MAX_PATH =
       (S_OK, Some (L ''Z:'' @ [BACKSLASH]))"
proof -
  have shape1: "wcslen (L ''c:/'') = 3" "L ''c:/'' ! 1 = of_char CHR '':''"
    "L ''c:/'' ! 2 = of_char CHR ''/''"
    by (simp_all add: L_def wcslen_def wcs_def)
  have shape2: "wcslen (L ''C:'') = 2" "L ''C:'' ! 1 = of_char CHR '':''"
    by (simp_all add: L_def wcslen_def wcs_def)
  have shape3: "wcslen (L ''C:'' @ [BACKSLASH]) = 3" "(L ''C:'' @ [BACKSLASH]) ! 1 = of_char CHR '':''"
    "(L ''C:'' @ [BACKSLASH]) ! 2 = BACKSLASH"
    by (simp_all add: L_def wcslen_def wcs_def)
  have shape4: "wcslen (L ''a:'') = 2" "L ''a:'' ! 1 = of_char CHR '':''"
    "of_char CHR ''a'' \<le> L ''a:'' ! 0 \<and> L ''a:'' ! 0 \<le> of_char CHR ''z''"
    "L ''a:'' ! 0 - 0x20 = of_char CHR ''A''"
    by (simp_all add: L_def wcslen_def wcs_def)
  have shape5: "wcslen (L ''z:'') = 2" "L ''z:'' ! 1 = of_char CHR '':''"
    "of_char CHR ''a'' \<le> L ''z:'' ! 0 \<and> L ''z:'' ! 0 \<le> of_char CHR ''z''"
    "L ''z:'' ! 0 - 0x20 = of_char CHR ''Z''"
    by (simp_all add: L_def wcslen_def wcs_def)
  have low: "of_char CHR ''a'' \<le> L ''c:/'' ! 0 \<and> L ''c:/'' ! 0 \<le> of_char CHR ''z''"
    "L ''c:/'' ! 0 - 0x20 = of_char CHR ''C''"
    by (simp_all add: L_def)
  have cap: "\<not> (of_char CHR ''a'' \<le> L ''C:'' ! 0 \<and> L ''C:'' ! 0 \<le> of_char CHR ''z'')"
    "L ''C:'' ! 0 = of_char CHR ''C''"
    "\<not> (of_char CHR ''a'' \<le> (L ''C:'' @ [BACKSLASH]) ! 0 \<and>
        (L ''C:'' @ [BACKSLASH]) ! 0 \<le> of_char CHR ''z'')"
    "(L ''C:'' @ [BACKSLASH]) ! 0 = of_char CHR ''C''"
    by (simp_all add: L_def)
  have tok: "L ''C:'' @ [BACKSLASH] = [of_char CHR ''C'', of_char CHR '':'', BACKSLASH]"
    "L ''A:'' @ [BACKSLASH] = [of_char CHR ''A'', of_char CHR '':'', BACKSLASH]"
    "L ''Z:'' @ [BACKSLASH] = [of_char CHR ''Z'', of_char CHR '':'', BACKSLASH]"
    by (simp_all add: L_def)
  note sel = selection_of_paths_first SUCCEEDED_constants
  have 1: "GetSelectedDrivePath (Some (selection_of_paths [L ''c:/''])) ptr MAX_PATH =
       (S_OK, Some (L ''C:'' @ [BACKSLASH]))"
    using GetSelectedDrivePath_accepts_drive_root
            [of "selection_of_paths [L ''c:/'']" S_OK "L ''c:/''"] shape1 low
    by (simp only: sel tok) (simp add: towupper_def)
  have 2: "GetSelectedDrivePath (Some (selection_of_paths [L ''C:''])) ptr MAX_PATH =
       (S_OK, Some (L ''C:'' @ [BACKSLASH]))"
    using GetSelectedDrivePath_accepts_drive_root
            [of "selection_of_paths [L ''C:'']" S_OK "L ''C:''"] shape2 cap(1,2)
    by (simp only: sel tok) (simp add: towupper_def)
  have 3: "GetSelectedDrivePath (Some (selection_of_paths [L ''C:'' @ [BACKSLASH]])) ptr MAX_PATH =
       (S_OK, Some (L ''C:'' @ [BACKSLASH]))"
    using GetSelectedDrivePath_accepts_drive_root
            [of "selection_of_paths [L ''C:'' @ [BACKSLASH]]" S_OK "L ''C:'' @ [BACKSLASH]"]
          shape3 cap(3,4)
    by (simp only: sel tok) (simp add: towupper_def)
  have 4: "GetSelectedDrivePath (Some (selection_of_paths [L ''a:''])) ptr MAX_PATH =
       (S_OK, Some (L ''A:'' @ [BACKSLASH]))"
    using GetSelectedDrivePath_accepts_drive_root
            [of "selection_of_paths [L ''a:'']" S_OK "L ''a:''"] shape4
    by (simp only: sel tok) (simp add: towupper_def)
  have 5: "GetSelectedDrivePath (Some (selection_of_paths [L ''z:''])) ptr MAX_PATH =
       (S_OK, Some (L ''Z:'' @ [BACKSLASH]))"
    using GetSelectedDrivePath_accepts_drive_root
            [of "selection_of_paths [L ''z:'']" S_OK "L ''z:''"] shape5
    by (simp only: sel tok) (simp add: towupper_def)
  from shape1 1 2 3 4 5 show ?thesis by simp
qed

text \<open>
  Claim C7. When the first item's path is longer than three characters, or shorter than
  two, or its second character is not a colon, \<open>GetSelectedDrivePath\<close> returns \<open>S_FALSE\<close>
  and stores no token. The witness: the folder Projects on drive D, whose path starts with
  a drive letter, and a UNC path, which starts with two backslashes.
\<close>

theorem GetSelectedDrivePath_rejects_non_root:
  assumes "SUCCEEDED (fst (GetItemAt arr 0))"
    and "GetDisplayName (snd (GetItemAt arr 0)) SIGDN_FILESYSPATH = (hr, Some name)"
    and "3 < wcslen name \<or> wcslen name < 2 \<or> name ! 1 \<noteq> of_char CHR '':''"
  shows "GetSelectedDrivePath (Some arr) ptr MAX_PATH = (S_FALSE, None)"
  using assms by (rule GetSelectedDrivePath_not_drive_root)

theorem GetSelectedDrivePath_rejects_non_root_witness:
  "3 < wcslen (L ''D:'' @ [BACKSLASH] @ L ''Projects'')
   \<and> GetSelectedDrivePath
        (Some (selection_of_paths [L ''D:'' @ [BACKSLASH] @ L ''Projects''])) ptr MAX_PATH =
       (S_FALSE, None)
   \<and> ([BACKSLASH, BACKSLASH] @ L ''srv'') ! 1 \<noteq> of_char CHR '':''
   \<and> GetSelectedDrivePath
        (Some (selection_of_paths [[BACKSLASH, BACKSLASH] @ L ''srv''])) ptr MAX_PATH =
       (S_FALSE, None)"
proof -
  have long: "3 < wcslen (L ''D:'' @ [BACKSLASH] @ L ''Projects'')"
    by (simp add: L_def wcslen_def wcs_def)
  have unc: "([BACKSLASH, BACKSLASH] @ L ''srv'') ! 1 \<noteq> of_char CHR '':''"
    by (simp add: L_def)
  note sel = selection_of_paths_first SUCCEEDED_constants
  have 1: "GetSelectedDrivePath
        (Some (selection_of_paths [L ''D:'' @ [BACKSLASH] @ L ''Projects''])) ptr MAX_PATH =
       (S_FALSE, None)"
    using GetSelectedDrivePath_rejects_non_root
            [of "selection_of_paths [L ''D:'' @ [BACKSLASH] @ L ''Projects'']" S_OK
                "L ''D:'' @ [BACKSLASH] @ L ''Projects''"] long
    by (simp only: sel) simp
  have 2: "GetSelectedDrivePath
        (Some (selection_of_paths [[BACKSLASH, BACKSLASH] @ L ''srv''])) ptr MAX_PATH =
       (S_FALSE, None)"
    using GetSelectedDrivePath_rejects_non_root
            [of "selection_of_paths [[BACKSLASH, BACKSLASH] @ L ''srv'']" S_OK
                "[BACKSLASH, BACKSLASH] @ L ''srv''"] unc
    by (simp only: sel) simp
  from long unc 1 2 show ?thesis by simp
qed

text \<open>
  Claim C9. The two validators, on a selection whose first item has the path \<open>name\<close>:
  the one of src/DiskBench.ShellExtension.Cpp accepts exactly the two-character form and
  the three-character form ending in a backslash or a slash, and stores the normalized
  token; the one of src/DiskBench/DiskBench.ShellExtension.Cpp accepts exactly the
  two-character form and stores the name as it is. So on every three-character path
  ending in a backslash the first accepts and the second rejects, and the two functions are
  not equal.
\<close>

theorem validators_diverge:
  assumes "SUCCEEDED (fst (GetCount arr))" and "snd (GetCount arr) \<noteq> 0"
    and "SUCCEEDED (fst (GetItemAt arr 0))"
    and "GetDisplayName (snd (GetItemAt arr 0)) SIGDN_FILESYSPATH = (hr, Some name)"
    and "SUCCEEDED hr"
  shows "GetSelectedDrivePath (Some arr) ptr MAX_PATH =
           (if 2 \<le> wcslen name \<and> name ! 1 = of_char CHR '':'' \<and>
               (wcslen name = 2 \<or>
                  (wcslen name = 3 \<and> (name ! 2 = BACKSLASH \<or> name ! 2 = of_char CHR ''/'')))
            then (S_OK, Some [towupper (name ! 0), of_char CHR '':'', BACKSLASH])
            else (S_FALSE, None))
       \<and> GetSelectedDrivePath_DiskBench (Some arr) ptr MAX_PATH =
           (if wcslen name = 2 \<and> name ! 1 = of_char CHR '':''
            then (S_OK, Some (wcs name))
            else (S_FALSE, None))
       \<and> (wcslen name = 3 \<and> name ! 1 = of_char CHR '':'' \<and> name ! 2 = BACKSLASH \<longrightarrow>
            GetSelectedDrivePath (Some arr) ptr MAX_PATH =
              (S_OK, Some [towupper (name ! 0), of_char CHR '':'', BACKSLASH]) \<and>
            GetSelectedDrivePath_DiskBench (Some arr) ptr MAX_PATH = (S_FALSE, None) \<and>
            GetSelectedDrivePath \<noteq> GetSelectedDrivePath_DiskBench)"
proof -
  let ?root = "2 \<le> wcslen name \<and> name ! 1 = of_char CHR '':'' \<and>
               (wcslen name = 2 \<or>
                  (wcslen name = 3 \<and> (name ! 2 = BACKSLASH \<or> name ! 2 = of_char CHR ''/'')))"
  have A: "GetSelectedDrivePath (Some arr) ptr MAX_PATH =
           (if ?root then (S_OK, Some [towupper (name ! 0), of_char CHR '':'', BACKSLASH])
            else (S_FALSE, None))"
  proof (cases ?root)
    case True
    then show ?thesis
      using GetSelectedDrivePath_drive_root[OF assms] by simp
  next
    case False
    then have "GetSelectedDrivePath (Some arr) ptr MAX_PATH = (S_FALSE, None)"
      using assms
      by (subst GetSelectedDrivePath_first_item[where hr = hr and name = name])
         (auto simp: SUCCEEDED_iff MAX_PATH_def)
    with False show ?thesis by simp
  qed
  have B: "GetSelectedDrivePath_DiskBench (Some arr) ptr MAX_PATH =
           (if wcslen name = 2 \<and> name ! 1 = of_char CHR '':''
            then (S_OK, Some (wcs name))
            else (S_FALSE, None))"
    using assms
    by (intro GetSelectedDrivePath_DiskBench_first_item[where hr = hr])
       (auto simp: SUCCEEDED_iff)
  have C: "GetSelectedDrivePath \<noteq> GetSelectedDrivePath_DiskBench"
    if "wcslen name = 3 \<and> name ! 1 = of_char CHR '':'' \<and> name ! 2 = BACKSLASH"
  proof
    assume "GetSelectedDrivePath = GetSelectedDrivePath_DiskBench"
    then have "GetSelectedDrivePath (Some arr) ptr MAX_PATH =
               GetSelectedDrivePath_DiskBench (Some arr) ptr MAX_PATH"
      by simp
    with that show False
      unfolding A B by (simp add: HRESULT_distinct)
  qed
  show ?thesis
    using C unfolding A B by simp
qed

theorem validators_diverge_witness:
  "wcslen (L ''C:'' @ [BACKSLASH]) = 3
   \<and> GetSelectedDrivePath (Some (selection_of_paths [L ''C:'' @ [BACKSLASH]])) ptr MAX_PATH =
       (S_OK, Some (L ''C:'' @ [BACKSLASH]))
   \<and> GetSelectedDrivePath_DiskBench (Some (selection_of_paths [L ''C:'' @ [BACKSLASH]])) ptr MAX_PATH =
       (S_FALSE, None)
   \<and> GetSelectedDrivePath \<noteq> GetSelectedDrivePath_DiskBench"
proof -
  have shape: "wcslen (L ''C:'' @ [BACKSLASH]) = 3"
    "(L ''C:'' @ [BACKSLASH]) ! 1 = of_char CHR '':''"
    "(L ''C:'' @ [BACKSLASH]) ! 2 = BACKSLASH"
    by (simp_all add: L_def wcslen_def wcs_def)
  have up: "towupper ((L ''C:'' @ [BACKSLASH]) ! 0) = of_char CHR ''C''"
    by (simp add: L_def towupper_def)
  have tok: "L ''C:'' @ [BACKSLASH] = [of_char CHR ''C'', of_char CHR '':'', BACKSLASH]"
    by (simp add: L_def)
  note sel = selection_of_paths_first SUCCEEDED_constants
  show ?thesis
    using validators_diverge
            [of "selection_of_paths [L ''C:'' @ [BACKSLASH]]" S_OK "L ''C:'' @ [BACKSLASH]"]
          shape up
    by (simp only: sel tok) simp
qed

section \<open>The configuration resolver\<close>

lemma wcs_append_zeros: "wcs (d @ replicate n 0) = wcs d"
proof (cases "0 \<in> set d")
  case True
  then show ?thesis by (simp add: wcs_def takeWhile_append1)
next
  case False
  then have all: "\<And>x. x \<in> set d \<Longrightarrow> x \<noteq> 0" by auto
  have a: "takeWhile (\<lambda>c. c \<noteq> 0) d = d"
    using all by (simp add: takeWhile_eq_all_conv)
  have b: "takeWhile (\<lambda>c. c \<noteq> 0) (replicate n (0::wchar)) = []"
    by (cases n) simp_all
  have "takeWhile (\<lambda>c. c \<noteq> 0) (d @ replicate n 0) =
        d @ takeWhile (\<lambda>c. c \<noteq> 0) (replicate n 0)"
    using all by (rule takeWhile_append2)
  then show ?thesis
    unfolding wcs_def by (simp only: a b append_Nil2)
qed

lemma StringCchCopy_stored:
  "0 < cch \<Longrightarrow> cch \<le> STRSAFE_MAX_CCH \<Longrightarrow>
   snd (StringCchCopy cch src) = Some (take (cch - 1) (wcs src))"
  by (auto simp: StringCchCopy_def wcslen_def)

lemma RegOpenKeyEx_result:
  "RegOpenKeyEx reg root subKey = (if reg root subKey = None then ERROR_FILE_NOT_FOUND else ERROR_SUCCESS, reg root subKey)"
  by (simp add: RegOpenKeyEx_def split: option.splits)

lemma query_and_copy:
  "(let (result, buffer) =
          RegQueryValueEx (Some k) (L ''ExePath'') (replicate MAX_PATH 0) (MAX_PATH * 2)
    in if result \<noteq> ERROR_SUCCESS then (E_FAIL, None)
       else (S_OK, snd (StringCchCopy MAX_PATH buffer))) =
   (case k (L ''ExePath'') of
      None \<Rightarrow> (E_FAIL, None)
    | Some d \<Rightarrow> if MAX_PATH < length d then (E_FAIL, None)
                else (S_OK, Some (take (MAX_PATH - 1) (wcs d))))"
proof (cases "k (L ''ExePath'')")
  case None
  then show ?thesis
    by (simp add: RegQueryValueEx_def ERROR_SUCCESS_def ERROR_FILE_NOT_FOUND_def)
next
  case (Some d)
  have copy: "snd (StringCchCopy MAX_PATH (d @ replicate (MAX_PATH - length d) 0)) =
      Some (take (MAX_PATH - 1) (wcs d))"
    by (subst StringCchCopy_stored)
       (simp_all add: MAX_PATH_def STRSAFE_MAX_CCH_def wcs_append_zeros)
  show ?thesis
    using Some copy
    by (simp add: RegQueryValueEx_def ERROR_SUCCESS_def ERROR_MORE_DATA_def)
qed

lemma ReadExePathFromRegistry_eq:
  "ReadExePathFromRegistry reg MAX_PATH =
     (case (case reg HKEY_LOCAL_MACHINE CONFIG_REG_PATH of
              Some k \<Rightarrow> Some k
            | None \<Rightarrow> reg HKEY_CURRENT_USER CONFIG_REG_PATH) of
        None \<Rightarrow> (E_FAIL, None)
      | Some k \<Rightarrow>
          (case k (L ''ExePath'') of
             None \<Rightarrow> (E_FAIL, None)
           | Some d \<Rightarrow> if MAX_PATH < length d then (E_FAIL, None)
                       else (S_OK, Some (take (MAX_PATH - 1) (wcs d)))))"
proof (cases "reg HKEY_LOCAL_MACHINE CONFIG_REG_PATH")
  case (Some k)
  then show ?thesis
    using query_and_copy[of k]
    by (simp add: ReadExePathFromRegistry_def RegOpenKeyEx_result ERROR_SUCCESS_def)
next
  case None
  note machine = None
  show ?thesis
  proof (cases "reg HKEY_CURRENT_USER CONFIG_REG_PATH")
    case None
    with machine show ?thesis
      by (simp add: ReadExePathFromRegistry_def RegOpenKeyEx_result ERROR_SUCCESS_def
          ERROR_FILE_NOT_FOUND_def)
  next
    case (Some k)
    with machine show ?thesis
      using query_and_copy[of k]
      by (simp add: ReadExePathFromRegistry_def RegOpenKeyEx_result ERROR_SUCCESS_def
          ERROR_FILE_NOT_FOUND_def)
  qed
qed

lemma ReadExePathFromRegistry_DiskBench_eq:
  "ReadExePathFromRegistry_DiskBench reg MAX_PATH =
     (case reg HKEY_LOCAL_MACHINE CONFIG_REG_PATH of
        None \<Rightarrow> (E_FAIL, None)
      | Some k \<Rightarrow>
          (case k (L ''ExePath'') of
             None \<Rightarrow> (E_FAIL, None)
           | Some d \<Rightarrow> if MAX_PATH < length d then (E_FAIL, None)
                       else (S_OK, Some (take (MAX_PATH - 1) (wcs d)))))"
proof (cases "reg HKEY_LOCAL_MACHINE CONFIG_REG_PATH")
  case (Some k)
  then show ?thesis
    using query_and_copy[of k]
    by (simp add: ReadExePathFromRegistry_DiskBench_def RegOpenKeyEx_result ERROR_SUCCESS_def)
next
  case None
  then show ?thesis
    by (simp add: ReadExePathFromRegistry_DiskBench_def RegOpenKeyEx_result ERROR_SUCCESS_def
          ERROR_FILE_NOT_FOUND_def)
qed

lemma GetExePath_eq: "GetExePath reg ptr MAX_PATH = ReadExePathFromRegistry reg MAX_PATH"
  by (simp add: GetExePath_def MAX_PATH_def)

text \<open>
  Claim C4, amended. For every registry, \<open>ReadExePathFromRegistry\<close> opens the configuration key
  under the machine-wide root first and turns to the same path under the per-user root
  only when that fails; from the key it opened it reads the value \<open>ExePath\<close> into its
  buffer of \<open>MAX_PATH\<close> code units. So: with the machine key absent and the user key
  holding a value that fits the buffer with its terminator, the user's value is returned;
  with the machine key present, its value is returned on the same condition whatever the
  user root holds, and a machine key without the value fails without a look at the user
  root; with both keys absent the call fails. The failure is \<open>E_FAIL\<close> with nothing stored,
  and it occurs only when no key opens or the value cannot be read from the key that did:
  it is missing, or it is longer than the buffer.
\<close>

theorem ReadExePathFromRegistry_machine_then_user:
  "ReadExePathFromRegistry reg MAX_PATH =
     (case (case reg HKEY_LOCAL_MACHINE CONFIG_REG_PATH of
              Some k \<Rightarrow> Some k
            | None \<Rightarrow> reg HKEY_CURRENT_USER CONFIG_REG_PATH) of
        None \<Rightarrow> (E_FAIL, None)
      | Some k \<Rightarrow>
          (case k (L ''ExePath'') of
             None \<Rightarrow> (E_FAIL, None)
           | Some d \<Rightarrow> if MAX_PATH < length d then (E_FAIL, None)
                       else (S_OK, Some (take (MAX_PATH - 1) (wcs d)))))
   \<and> (\<forall>k d. reg HKEY_LOCAL_MACHINE CONFIG_REG_PATH = None \<and>
            reg HKEY_CURRENT_USER CONFIG_REG_PATH = Some k \<and>
            k (L ''ExePath'') = Some d \<and> length d \<le> MAX_PATH \<and> wcslen d < MAX_PATH \<longrightarrow>
            ReadExePathFromRegistry reg MAX_PATH = (S_OK, Some (wcs d)))
   \<and> (\<forall>k d. reg HKEY_LOCAL_MACHINE CONFIG_REG_PATH = Some k \<and>
            k (L ''ExePath'') = Some d \<and> length d \<le> MAX_PATH \<and> wcslen d < MAX_PATH \<longrightarrow>
            ReadExePathFromRegistry reg MAX_PATH = (S_OK, Some (wcs d)))
   \<and> (\<forall>k. reg HKEY_LOCAL_MACHINE CONFIG_REG_PATH = Some k \<and> k (L ''ExePath'') = None \<longrightarrow>
            ReadExePathFromRegistry reg MAX_PATH = (E_FAIL, None))
   \<and> (reg HKEY_LOCAL_MACHINE CONFIG_REG_PATH = None \<and>
      reg HKEY_CURRENT_USER CONFIG_REG_PATH = None \<longrightarrow>
        ReadExePathFromRegistry reg MAX_PATH = (E_FAIL, None))"
  unfolding ReadExePathFromRegistry_eq
  by (auto simp: wcslen_def MAX_PATH_def)

lemma tool_exe_value:
  "length (tool_exe @ [0]) \<le> MAX_PATH" "wcslen (tool_exe @ [0]) < MAX_PATH"
  "wcs (tool_exe @ [0]) = tool_exe"
  by (simp_all add: tool_exe_def L_def MAX_PATH_def wcslen_def wcs_def)

lemma CONFIG_REG_PATH_lookup:
  "registry_of machine user HKEY_LOCAL_MACHINE CONFIG_REG_PATH = machine"
  "registry_of machine user HKEY_CURRENT_USER CONFIG_REG_PATH = user"
  by (simp_all add: registry_of_def)

lemma key_with_ExePath_lookup: "key_with_ExePath d (L ''ExePath'') = Some d"
  by (simp add: key_with_ExePath_def)

theorem ReadExePathFromRegistry_machine_then_user_witness:
  "configured_user HKEY_LOCAL_MACHINE CONFIG_REG_PATH = None
   \<and> configured_user HKEY_CURRENT_USER CONFIG_REG_PATH = Some (key_with_ExePath (tool_exe @ [0]))
   \<and> ReadExePathFromRegistry configured_user MAX_PATH = (S_OK, Some tool_exe)
   \<and> ReadExePathFromRegistry unconfigured MAX_PATH = (E_FAIL, None)
   \<and> ReadExePathFromRegistry (registry_of (Some (\<lambda>valueName. None))
        (Some (key_with_ExePath (tool_exe @ [0])))) MAX_PATH = (E_FAIL, None)
   \<and> ReadExePathFromRegistry (registry_of (Some (key_with_ExePath (tool_exe @ [0])))
        (Some (key_with_ExePath (shell_dll @ [0])))) MAX_PATH = (S_OK, Some tool_exe)"
proof -
  have h: "configured_user HKEY_LOCAL_MACHINE CONFIG_REG_PATH = None \<and>
      configured_user HKEY_CURRENT_USER CONFIG_REG_PATH =
        Some (key_with_ExePath (tool_exe @ [0])) \<and>
      key_with_ExePath (tool_exe @ [0]) (L ''ExePath'') = Some (tool_exe @ [0]) \<and>
      length (tool_exe @ [0]) \<le> MAX_PATH \<and> wcslen (tool_exe @ [0]) < MAX_PATH"
    by (simp only: configured_user_def CONFIG_REG_PATH_lookup key_with_ExePath_lookup
        tool_exe_value)
  have "ReadExePathFromRegistry configured_user MAX_PATH =
          (S_OK, Some (wcs (tool_exe @ [0])))"
    using ReadExePathFromRegistry_machine_then_user[of configured_user] h by blast
  then have 1: "ReadExePathFromRegistry configured_user MAX_PATH = (S_OK, Some tool_exe)"
    by (simp only: tool_exe_value)
  have 2: "ReadExePathFromRegistry unconfigured MAX_PATH = (E_FAIL, None)"
    using ReadExePathFromRegistry_machine_then_user[of unconfigured]
    by (simp add: unconfigured_def CONFIG_REG_PATH_lookup)
  have 3: "ReadExePathFromRegistry (registry_of (Some (\<lambda>valueName. None))
        (Some (key_with_ExePath (tool_exe @ [0])))) MAX_PATH = (E_FAIL, None)"
    using ReadExePathFromRegistry_machine_then_user[of "registry_of (Some (\<lambda>valueName. None))
        (Some (key_with_ExePath (tool_exe @ [0])))"]
    by (simp add: CONFIG_REG_PATH_lookup)
  have "ReadExePathFromRegistry (registry_of (Some (key_with_ExePath (tool_exe @ [0])))
        (Some (key_with_ExePath (shell_dll @ [0])))) MAX_PATH =
          (S_OK, Some (wcs (tool_exe @ [0])))"
    using ReadExePathFromRegistry_machine_then_user
            [of "registry_of (Some (key_with_ExePath (tool_exe @ [0])))
                   (Some (key_with_ExePath (shell_dll @ [0])))"]
          CONFIG_REG_PATH_lookup(1) key_with_ExePath_lookup tool_exe_value(1,2)
    by blast
  then have 4: "ReadExePathFromRegistry (registry_of (Some (key_with_ExePath (tool_exe @ [0])))
        (Some (key_with_ExePath (shell_dll @ [0])))) MAX_PATH = (S_OK, Some tool_exe)"
    by (simp only: tool_exe_value)
  show ?thesis using 1 2 3 4 by (simp add: configured_user_def CONFIG_REG_PATH_lookup)
qed


text \<open>
  The claim as first stated takes every value the user root holds: one of 300 characters
  does not fit the buffer, and the call fails as if nothing were configured.
\<close>

theorem ReadExePathFromRegistry_long_value_counterexample:
  "registry_of None (Some (key_with_ExePath long_value)) HKEY_LOCAL_MACHINE CONFIG_REG_PATH = None
   \<and> registry_of None (Some (key_with_ExePath long_value)) HKEY_CURRENT_USER CONFIG_REG_PATH =
       Some (key_with_ExePath long_value)
   \<and> key_with_ExePath long_value (L ''ExePath'') = Some long_value
   \<and> wcslen long_value = 300
   \<and> ReadExePathFromRegistry (registry_of None (Some (key_with_ExePath long_value))) MAX_PATH =
       (E_FAIL, None)"
proof -
  have len: "length long_value = 301" by (simp add: long_value_def)
  have "wcs long_value = replicate 300 (of_char CHR ''A'')"
    unfolding long_value_def wcs_def
    by (subst takeWhile_append2) simp_all
  then have w: "wcslen long_value = 300" by (simp add: wcslen_def)
  have "ReadExePathFromRegistry (registry_of None (Some (key_with_ExePath long_value))) MAX_PATH =
       (E_FAIL, None)"
    unfolding ReadExePathFromRegistry_eq
    by (simp add: CONFIG_REG_PATH_lookup key_with_ExePath_lookup len MAX_PATH_def)
  with w show ?thesis by (simp add: CONFIG_REG_PATH_lookup key_with_ExePath_lookup)
qed

section \<open>Invoke and GetState\<close>

lemma GetExePath_Some:
  assumes "GetExePath reg pszExePath cchExePath = (hr, Some P)"
  shows "0 \<notin> set P \<and> length P < cchExePath \<and> hr = S_OK"
proof -
  from assms obtain buffer
    where "snd (StringCchCopy cchExePath buffer) = Some P" and hr: "hr = S_OK"
    by (auto simp: GetExePath_def ReadExePathFromRegistry_def split_beta Let_def
        split: if_splits)
  then obtain hr' where "StringCchCopy cchExePath buffer = (hr', Some P)"
    by (cases "StringCchCopy cchExePath buffer") auto
  then show ?thesis using hr by (auto simp: StringCchCopy_no_nul StringCchCopy_length)
qed

lemma Invoke_launch:
  assumes T: "GetSelectedDrivePath psiItemArray ptr MAX_PATH = (hrT, Some T)"
    and "0 < wcslen T"
    and P: "GetExePath (registry env) ptr MAX_PATH = (hrP, Some P)"
  shows "Invoke env psiItemArray pbc =
           (if CreateProcess env P
                 ([DQUOTE] @ P @ [DQUOTE] @ L '' --quick '' @ [DQUOTE] @ T @ [DQUOTE])
            then S_OK else E_FAIL,
            [(P, [DQUOTE] @ P @ [DQUOTE] @ L '' --quick '' @ [DQUOTE] @ T @ [DQUOTE])])"
proof -
  let ?cmd = "[DQUOTE] @ P @ [DQUOTE] @ L '' --quick '' @ [DQUOTE] @ T @ [DQUOTE]"
  from GetSelectedDrivePath_Some[OF T]
  have t: "0 \<notin> set T" "length T \<le> 3" "hrT = S_OK" by auto
  from GetExePath_Some[OF P]
  have p: "0 \<notin> set P" "length P < MAX_PATH" "hrP = S_OK" by auto
  have nn: "psiItemArray \<noteq> None"
    using T by (cases psiItemArray) (auto simp: GetSelectedDrivePath_def)
  have nz: "0 \<notin> set ?cmd" using t p L_quick by simp
  have len: "length ?cmd < MAX_PATH * 2" using t p L_quick by (simp add: MAX_PATH_def)
  have "StringCchPrintf (MAX_PATH * 2) ?cmd = (S_OK, Some ?cmd)"
    unfolding StringCchPrintf_def
    using len wcs_idem[OF nz] wcslen_no_nul[OF nz]
    by (simp add: StringCchCopy_def MAX_PATH_def STRSAFE_MAX_CCH_def)
  then have cmd: "local_buffer (snd (StringCchPrintf (MAX_PATH * 2) ?cmd)) = ?cmd"
    by (simp add: local_buffer_def)
  show ?thesis
    using nn T P \<open>0 < wcslen T\<close> cmd t(3) p(3) wcs_idem[OF t(1)] wcs_idem[OF p(1)]
    by (simp add: Invoke_def local_buffer_def Let_def FAILED_constants)
qed

lemma Invoke_no_exe:
  assumes T: "GetSelectedDrivePath psiItemArray ptr MAX_PATH = (hrT, Some T)"
    and "0 < wcslen T"
    and P: "FAILED (fst (GetExePath (registry env) ptr MAX_PATH))"
  shows "Invoke env psiItemArray pbc = (E_FAIL, [])"
proof -
  from GetSelectedDrivePath_Some[OF T] have t: "hrT = S_OK" by auto
  have nn: "psiItemArray \<noteq> None"
    using T by (cases psiItemArray) (auto simp: GetSelectedDrivePath_def)
  show ?thesis
    using nn T P \<open>0 < wcslen T\<close> t
    by (auto simp: Invoke_def local_buffer_def Let_def FAILED_constants split_beta)
qed

lemma Invoke_launch_only_after:
  assumes "snd (Invoke env psiItemArray pbc) \<noteq> []"
  shows "SUCCEEDED (fst (GetSelectedDrivePath psiItemArray ptr MAX_PATH)) \<and>
         0 < wcslen (local_buffer (snd (GetSelectedDrivePath psiItemArray ptr MAX_PATH))) \<and>
         SUCCEEDED (fst (GetExePath (registry env) ptr MAX_PATH))"
  using assms
  by (auto simp: Invoke_def Let_def split_beta SUCCEEDED_iff split: if_splits)

lemma Invoke_not_handled:
  assumes "FAILED (fst (GetSelectedDrivePath (Some arr) ptr MAX_PATH)) \<or>
           wcslen (local_buffer (snd (GetSelectedDrivePath (Some arr) ptr MAX_PATH))) = 0"
  shows "Invoke env (Some arr) pbc = (S_FALSE, [])"
  using assms by (auto simp: Invoke_def Let_def split_beta)

lemma Invoke_not_drive_root:
  assumes "SUCCEEDED (fst (GetItemAt arr 0))"
    and "GetDisplayName (snd (GetItemAt arr 0)) SIGDN_FILESYSPATH = (hr, Some name)"
    and "3 < wcslen name \<or> wcslen name < 2 \<or> name ! 1 \<noteq> of_char CHR '':''"
  shows "Invoke env (Some arr) pbc = (S_FALSE, [])"
proof -
  have "GetSelectedDrivePath (Some arr) ptr MAX_PATH = (S_FALSE, None)"
    using assms by (rule GetSelectedDrivePath_not_drive_root)
  then have "wcslen (local_buffer (snd (GetSelectedDrivePath (Some arr) ptr MAX_PATH))) = 0"
    by (simp add: local_buffer_def wcslen_def wcs_def)
  then show ?thesis by (simp add: Invoke_not_handled)
qed

lemma GetExePath_both_absent:
  assumes "reg HKEY_LOCAL_MACHINE CONFIG_REG_PATH = None"
    and "reg HKEY_CURRENT_USER CONFIG_REG_PATH = None"
  shows "GetExePath reg ptr MAX_PATH = (E_FAIL, None)"
  using assms unfolding GetExePath_eq ReadExePathFromRegistry_eq by simp

lemma drive_D_validates:
  "GetSelectedDrivePath (Some drive_D) ptr MAX_PATH = (S_OK, Some (L ''D:'' @ [BACKSLASH]))"
proof -
  have "GetSelectedDrivePath (Some drive_D) ptr MAX_PATH =
      (S_OK, Some [towupper ((L ''D:'' @ [BACKSLASH]) ! 0), of_char CHR '':'', BACKSLASH])"
    unfolding drive_D_def
    by (rule GetSelectedDrivePath_drive_root[where hr = S_OK])
       (simp_all add: selection_of_paths_first SUCCEEDED_constants,
        simp_all add: L_def wcslen_def wcs_def)
  then show ?thesis by (simp add: L_def towupper_def)
qed

lemma registry_environment_of: "registry (environment_of reg) = reg"
  by (simp add: environment_of_def)

lemma GetExePath_configured_machine:
  "GetExePath configured_machine ptr MAX_PATH = (S_OK, Some tool_exe)"
  unfolding GetExePath_eq ReadExePathFromRegistry_eq
  by (simp add: configured_machine_def CONFIG_REG_PATH_lookup key_with_ExePath_lookup
      tool_exe_value)
     (simp add: tool_exe_def L_def MAX_PATH_def)

lemma GetExePath_unconfigured: "GetExePath unconfigured ptr MAX_PATH = (E_FAIL, None)"
  by (rule GetExePath_both_absent) (simp_all add: unconfigured_def CONFIG_REG_PATH_lookup)

text \<open>
  Claim C2. Take a non-null selection whose first item is a drive root (as in claim C1).
  When the configuration key is absent under both roots, and more generally whenever
  \<open>GetExePath\<close> fails, \<open>Invoke\<close> returns \<open>E_FAIL\<close> and makes no call of \<open>CreateProcess\<close>.
  \<open>E_FAIL\<close> is a failure code and differs from \<open>S_FALSE\<close>, the success code that \<open>Invoke\<close>
  returns, again with no call of \<open>CreateProcess\<close>, for an inapplicable selection, whatever
  the configuration: whenever the validator fails or stores an empty token, and so
  whenever the first item's path is longer than three characters, shorter than two, or
  has no colon as its second character. For every environment and selection, a call of
  \<open>CreateProcess\<close> is made only if the validator succeeded with a non-empty token and
  \<open>GetExePath\<close> succeeded.
\<close>

theorem Invoke_not_configured_fails_without_launch:
  assumes "SUCCEEDED (fst (GetCount arr))" and "snd (GetCount arr) \<noteq> 0"
    and "SUCCEEDED (fst (GetItemAt arr 0))"
    and "GetDisplayName (snd (GetItemAt arr 0)) SIGDN_FILESYSPATH = (hr, Some name)"
    and "SUCCEEDED hr"
    and "name ! 1 = of_char CHR '':''"
    and "wcslen name = 2 \<or>
         (wcslen name = 3 \<and> (name ! 2 = BACKSLASH \<or> name ! 2 = of_char CHR ''/''))"
  shows "(registry env HKEY_LOCAL_MACHINE CONFIG_REG_PATH = None \<and>
          registry env HKEY_CURRENT_USER CONFIG_REG_PATH = None \<longrightarrow>
            Invoke env (Some arr) pbc = (E_FAIL, []))
       \<and> (FAILED (fst (GetExePath (registry env) ptr MAX_PATH)) \<longrightarrow>
            Invoke env (Some arr) pbc = (E_FAIL, []))
       \<and> E_FAIL \<noteq> S_FALSE \<and> FAILED E_FAIL \<and> \<not> FAILED S_FALSE
       \<and> (\<forall>env' sel pbc'. snd (Invoke env' sel pbc') \<noteq> [] \<longrightarrow>
            SUCCEEDED (fst (GetSelectedDrivePath sel ptr MAX_PATH)) \<and>
            0 < wcslen (local_buffer (snd (GetSelectedDrivePath sel ptr MAX_PATH))) \<and>
            SUCCEEDED (fst (GetExePath (registry env') ptr MAX_PATH)))
       \<and> (\<forall>env' sel pbc'.
            FAILED (fst (GetSelectedDrivePath (Some sel) ptr MAX_PATH)) \<or>
            wcslen (local_buffer (snd (GetSelectedDrivePath (Some sel) ptr MAX_PATH))) = 0 \<longrightarrow>
              Invoke env' (Some sel) pbc' = (S_FALSE, []))
       \<and> (\<forall>env' sel hr' name' pbc'.
            SUCCEEDED (fst (GetItemAt sel 0)) \<and>
            GetDisplayName (snd (GetItemAt sel 0)) SIGDN_FILESYSPATH = (hr', Some name') \<and>
            (3 < wcslen name' \<or> wcslen name' < 2 \<or> name' ! 1 \<noteq> of_char CHR '':'') \<longrightarrow>
              Invoke env' (Some sel) pbc' = (S_FALSE, []))"
proof -
  let ?T = "[towupper (name ! 0), of_char CHR '':'', BACKSLASH]"
  have T: "GetSelectedDrivePath (Some arr) ptr MAX_PATH = (S_OK, Some ?T)"
    by (rule GetSelectedDrivePath_drive_root[OF assms])
  have "0 \<notin> set ?T" using GetSelectedDrivePath_Some[OF T] by blast
  then have len: "0 < wcslen ?T" by (simp add: wcslen_no_nul)
  have a: "FAILED (fst (GetExePath (registry env) ptr MAX_PATH)) \<Longrightarrow>
            Invoke env (Some arr) pbc = (E_FAIL, [])"
    by (rule Invoke_no_exe[OF T len])
  have b: "registry env HKEY_LOCAL_MACHINE CONFIG_REG_PATH = None \<and>
          registry env HKEY_CURRENT_USER CONFIG_REG_PATH = None \<Longrightarrow>
            Invoke env (Some arr) pbc = (E_FAIL, [])"
    using a GetExePath_both_absent[of "registry env"] by (simp add: FAILED_constants)
  have c: "E_FAIL \<noteq> S_FALSE \<and> FAILED E_FAIL \<and> \<not> FAILED S_FALSE"
    using HRESULT_distinct(3) FAILED_constants(2,3) by simp
  have d: "\<forall>env' sel pbc'. snd (Invoke env' sel pbc') \<noteq> [] \<longrightarrow>
            SUCCEEDED (fst (GetSelectedDrivePath sel ptr MAX_PATH)) \<and>
            0 < wcslen (local_buffer (snd (GetSelectedDrivePath sel ptr MAX_PATH))) \<and>
            SUCCEEDED (fst (GetExePath (registry env') ptr MAX_PATH))"
    using Invoke_launch_only_after by blast
  have e: "\<forall>env' sel pbc'.
            FAILED (fst (GetSelectedDrivePath (Some sel) ptr MAX_PATH)) \<or>
            wcslen (local_buffer (snd (GetSelectedDrivePath (Some sel) ptr MAX_PATH))) = 0 \<longrightarrow>
              Invoke env' (Some sel) pbc' = (S_FALSE, [])"
    using Invoke_not_handled by blast
  have f: "\<forall>env' sel hr' name' pbc'.
            SUCCEEDED (fst (GetItemAt sel 0)) \<and>
            GetDisplayName (snd (GetItemAt sel 0)) SIGDN_FILESYSPATH = (hr', Some name') \<and>
            (3 < wcslen name' \<or> wcslen name' < 2 \<or> name' ! 1 \<noteq> of_char CHR '':'') \<longrightarrow>
              Invoke env' (Some sel) pbc' = (S_FALSE, [])"
    using Invoke_not_drive_root by blast
  from a b c have abc: "(registry env HKEY_LOCAL_MACHINE CONFIG_REG_PATH = None \<and>
          registry env HKEY_CURRENT_USER CONFIG_REG_PATH = None \<longrightarrow>
            Invoke env (Some arr) pbc = (E_FAIL, []))
       \<and> (FAILED (fst (GetExePath (registry env) ptr MAX_PATH)) \<longrightarrow>
            Invoke env (Some arr) pbc = (E_FAIL, []))
       \<and> E_FAIL \<noteq> S_FALSE \<and> FAILED E_FAIL \<and> \<not> FAILED S_FALSE"
    by blast
  from abc d e f show ?thesis by (intro conjI) (elim conjE, assumption)+
qed

theorem Invoke_not_configured_fails_without_launch_witness:
  "registry (environment_of unconfigured) HKEY_LOCAL_MACHINE CONFIG_REG_PATH = None
   \<and> registry (environment_of unconfigured) HKEY_CURRENT_USER CONFIG_REG_PATH = None
   \<and> Invoke (environment_of unconfigured) (Some drive_D) nullptr = (E_FAIL, [])
   \<and> snd (Invoke (environment_of configured_machine) (Some drive_D) nullptr) \<noteq> []
   \<and> SUCCEEDED (fst (GetExePath (registry (environment_of configured_machine)) ptr MAX_PATH))
   \<and> Invoke (environment_of configured_machine)
        (Some (selection_of_paths [L ''D:'' @ [BACKSLASH] @ L ''Projects''])) nullptr =
       (S_FALSE, [])
   \<and> Invoke (environment_of unconfigured)
        (Some (selection_of_paths [L ''D:'' @ [BACKSLASH] @ L ''Projects''])) nullptr =
       (S_FALSE, [])
   \<and> Invoke (environment_of unconfigured) (Some drive_D) nullptr \<noteq>
     Invoke (environment_of unconfigured)
        (Some (selection_of_paths [L ''D:'' @ [BACKSLASH] @ L ''Projects''])) nullptr"
proof -
  have absent: "registry (environment_of unconfigured) HKEY_LOCAL_MACHINE CONFIG_REG_PATH = None \<and>
     registry (environment_of unconfigured) HKEY_CURRENT_USER CONFIG_REG_PATH = None"
    by (simp add: registry_environment_of unconfigured_def CONFIG_REG_PATH_lookup)
  have shape: "wcslen (L ''D:'' @ [BACKSLASH]) = 3"
    "(L ''D:'' @ [BACKSLASH]) ! 1 = of_char CHR '':''"
    "(L ''D:'' @ [BACKSLASH]) ! 2 = BACKSLASH"
    by (simp_all add: L_def wcslen_def wcs_def)
  have long: "3 < wcslen (L ''D:'' @ [BACKSLASH] @ L ''Projects'')"
    by (simp add: L_def wcslen_def wcs_def)
  have inst: "(registry env HKEY_LOCAL_MACHINE CONFIG_REG_PATH = None \<and>
          registry env HKEY_CURRENT_USER CONFIG_REG_PATH = None \<longrightarrow>
            Invoke env (Some drive_D) pbc = (E_FAIL, []))
       \<and> E_FAIL \<noteq> S_FALSE
       \<and> (\<forall>env' sel pbc'. snd (Invoke env' sel pbc') \<noteq> [] \<longrightarrow>
            SUCCEEDED (fst (GetExePath (registry env') ptr MAX_PATH)))
       \<and> (\<forall>env' sel hr' name' pbc'.
            SUCCEEDED (fst (GetItemAt sel 0)) \<and>
            GetDisplayName (snd (GetItemAt sel 0)) SIGDN_FILESYSPATH = (hr', Some name') \<and>
            (3 < wcslen name' \<or> wcslen name' < 2 \<or> name' ! 1 \<noteq> of_char CHR '':'') \<longrightarrow>
              Invoke env' (Some sel) pbc' = (S_FALSE, []))" for env pbc
    using Invoke_not_configured_fails_without_launch
            [of "selection_of_paths [L ''D:'' @ [BACKSLASH]]" S_OK "L ''D:'' @ [BACKSLASH]"
                env pbc] shape
    by (simp only: selection_of_paths_first SUCCEEDED_constants drive_D_def) simp
  have fail: "Invoke (environment_of unconfigured) (Some drive_D) nullptr = (E_FAIL, [])"
    using inst[of "environment_of unconfigured" nullptr] absent by blast
  have launch: "snd (Invoke (environment_of configured_machine) (Some drive_D) nullptr) \<noteq> []"
    by (subst Invoke_launch[OF drive_D_validates _]) 
       (simp_all add: registry_environment_of GetExePath_configured_machine L_def wcslen_def wcs_def)
  have resolved:
    "SUCCEEDED (fst (GetExePath (registry (environment_of configured_machine)) ptr MAX_PATH))"
    using inst[of "environment_of unconfigured" nullptr] launch by blast
  have folder: "SUCCEEDED (fst (GetItemAt
          (selection_of_paths [L ''D:'' @ [BACKSLASH] @ L ''Projects'']) 0)) \<and>
       GetDisplayName (snd (GetItemAt
          (selection_of_paths [L ''D:'' @ [BACKSLASH] @ L ''Projects'']) 0)) SIGDN_FILESYSPATH =
         (S_OK, Some (L ''D:'' @ [BACKSLASH] @ L ''Projects''))"
    by (simp only: selection_of_paths_first SUCCEEDED_constants)
  have not_handled: "Invoke env'
        (Some (selection_of_paths [L ''D:'' @ [BACKSLASH] @ L ''Projects''])) nullptr =
       (S_FALSE, [])" for env'
    using inst[of "environment_of unconfigured" nullptr] folder long by blast
  have differ: "Invoke (environment_of unconfigured) (Some drive_D) nullptr \<noteq>
     Invoke (environment_of unconfigured)
        (Some (selection_of_paths [L ''D:'' @ [BACKSLASH] @ L ''Projects''])) nullptr"
    using inst[of "environment_of unconfigured" nullptr] fail not_handled by simp
  from absent fail launch resolved not_handled differ show ?thesis by simp
qed

text \<open>
  Claim C6. When the validator yields the token \<open>T\<close> for the selection and \<open>GetExePath\<close>
  yields the tool path \<open>P\<close>, \<open>Invoke\<close> makes exactly one call of \<open>CreateProcess\<close>, with
  application name \<open>P\<close> and the command line made of \<open>P\<close> in double quotes, a space,
  \<open>--quick\<close>, a space and \<open>T\<close> in double quotes, in full: the buffer of twice \<open>MAX_PATH\<close>
  code units is never too small for it.
\<close>

theorem Invoke_command_line:
  assumes "GetSelectedDrivePath psiItemArray ptr MAX_PATH = (hrT, Some T)"
    and "SUCCEEDED hrT" and "0 < wcslen T"
    and "GetExePath (registry env) ptr MAX_PATH = (hrP, Some P)" and "SUCCEEDED hrP"
  shows "snd (Invoke env psiItemArray pbc) =
           [(P, [DQUOTE] @ P @ [DQUOTE] @ L '' --quick '' @ [DQUOTE] @ T @ [DQUOTE])]"
  using Invoke_launch[OF assms(1) assms(3) assms(4)] by simp

theorem Invoke_command_line_witness:
  "GetSelectedDrivePath (Some drive_D) ptr MAX_PATH = (S_OK, Some (L ''D:'' @ [BACKSLASH]))
   \<and> GetExePath (registry (environment_of configured_machine)) ptr MAX_PATH =
       (S_OK, Some tool_exe)
   \<and> snd (Invoke (environment_of configured_machine) (Some drive_D) nullptr) =
       [(tool_exe,
         [DQUOTE] @ tool_exe @ [DQUOTE] @ L '' --quick '' @
         [DQUOTE] @ L ''D:'' @ [BACKSLASH] @ [DQUOTE])]"
proof -
  have len: "0 < wcslen (L ''D:'' @ [BACKSLASH])"
    by (simp add: L_def wcslen_def wcs_def)
  have P: "GetExePath (registry (environment_of configured_machine)) ptr MAX_PATH =
       (S_OK, Some tool_exe)"
    by (simp only: registry_environment_of GetExePath_configured_machine)
  from Invoke_command_line[OF drive_D_validates SUCCEEDED_constants(1) len P
         SUCCEEDED_constants(1), of nullptr]
  show ?thesis using drive_D_validates P by simp
qed

text \<open>
  Claim C5. \<open>GetState\<close> called with a non-null \<open>pCmdState\<close> returns \<open>S_OK\<close> in every case
  and stores \<open>ECS_ENABLED\<close> or \<open>ECS_HIDDEN\<close>: \<open>ECS_ENABLED\<close> exactly when the selection is
  non-null and the validator succeeds with a non-empty token, \<open>ECS_HIDDEN\<close> otherwise. In
  particular it stores \<open>ECS_HIDDEN\<close> for a null selection, for a selection of zero items,
  and when \<open>GetCount\<close>, \<open>GetItemAt\<close> or \<open>GetDisplayName\<close> fails or no name is given.
\<close>

theorem GetState_hidden_or_enabled:
  "fst (GetState psiItemArray fOkToBeSlow ptr) = S_OK
   \<and> (snd (GetState psiItemArray fOkToBeSlow ptr) = Some ECS_ENABLED \<or>
      snd (GetState psiItemArray fOkToBeSlow ptr) = Some ECS_HIDDEN)
   \<and> (snd (GetState psiItemArray fOkToBeSlow ptr) = Some ECS_ENABLED \<longleftrightarrow>
        psiItemArray \<noteq> None \<and>
        (\<exists>hr T. GetSelectedDrivePath psiItemArray ptr MAX_PATH = (hr, Some T) \<and>
                SUCCEEDED hr \<and> 0 < wcslen T))
   \<and> (psiItemArray = None \<longrightarrow> snd (GetState psiItemArray fOkToBeSlow ptr) = Some ECS_HIDDEN)
   \<and> (\<forall>arr. psiItemArray = Some arr \<and> snd (GetCount arr) = 0 \<longrightarrow>
         snd (GetState psiItemArray fOkToBeSlow ptr) = Some ECS_HIDDEN)
   \<and> (\<forall>arr. psiItemArray = Some arr \<and>
         (FAILED (fst (GetCount arr)) \<or> FAILED (fst (GetItemAt arr 0)) \<or>
          FAILED (fst (GetDisplayName (snd (GetItemAt arr 0)) SIGDN_FILESYSPATH)) \<or>
          snd (GetDisplayName (snd (GetItemAt arr 0)) SIGDN_FILESYSPATH) = None) \<longrightarrow>
         snd (GetState psiItemArray fOkToBeSlow ptr) = Some ECS_HIDDEN)"
proof -
  have 1: "fst (GetState psiItemArray fOkToBeSlow ptr) = S_OK"
    by (simp add: GetState_def Let_def split_beta)
  have 3: "snd (GetState psiItemArray fOkToBeSlow ptr) = Some ECS_ENABLED \<longleftrightarrow>
        psiItemArray \<noteq> None \<and>
        (\<exists>hr T. GetSelectedDrivePath psiItemArray ptr MAX_PATH = (hr, Some T) \<and>
                SUCCEEDED hr \<and> 0 < wcslen T)"
    by (cases "GetSelectedDrivePath psiItemArray ptr MAX_PATH")
       (auto simp: GetState_def Let_def local_buffer_def wcslen_def wcs_def split: option.splits)
  have 2: "snd (GetState psiItemArray fOkToBeSlow ptr) = Some ECS_ENABLED \<or>
      snd (GetState psiItemArray fOkToBeSlow ptr) = Some ECS_HIDDEN"
    by (simp add: GetState_def Let_def split_beta)
  have 4: "psiItemArray = None \<longrightarrow> snd (GetState psiItemArray fOkToBeSlow ptr) = Some ECS_HIDDEN"
    by (simp add: GetState_def)
  have 5: "\<forall>arr. psiItemArray = Some arr \<and> snd (GetCount arr) = 0 \<longrightarrow>
         snd (GetState psiItemArray fOkToBeSlow ptr) = Some ECS_HIDDEN"
    by (auto simp: GetState_def GetSelectedDrivePath_def Let_def split_beta MAX_PATH_def
        local_buffer_def wcslen_def wcs_def)
  have 6: "\<forall>arr. psiItemArray = Some arr \<and>
         (FAILED (fst (GetCount arr)) \<or> FAILED (fst (GetItemAt arr 0)) \<or>
          FAILED (fst (GetDisplayName (snd (GetItemAt arr 0)) SIGDN_FILESYSPATH)) \<or>
          snd (GetDisplayName (snd (GetItemAt arr 0)) SIGDN_FILESYSPATH) = None) \<longrightarrow>
         snd (GetState psiItemArray fOkToBeSlow ptr) = Some ECS_HIDDEN"
    by (auto simp: GetState_def GetSelectedDrivePath_def Let_def split_beta MAX_PATH_def
        local_buffer_def wcslen_def wcs_def FAILED_constants SUCCEEDED_iff split: option.splits)
  show ?thesis using 1 2 3 4 5 6 by blast
qed

theorem GetState_hidden_or_enabled_witness:
  "GetState None True ptr = (S_OK, Some ECS_HIDDEN)
   \<and> snd (GetCount (selection_of_paths [])) = 0
   \<and> GetState (Some (selection_of_paths [])) True ptr = (S_OK, Some ECS_HIDDEN)
   \<and> GetState (Some drive_D) False ptr = (S_OK, Some ECS_ENABLED)
   \<and> FAILED (fst (GetItemAt (selection_of_paths [] \<lparr>GetCount := (S_OK, 1)\<rparr>) 0))
   \<and> GetState (Some (selection_of_paths [] \<lparr>GetCount := (S_OK, 1)\<rparr>)) False ptr =
       (S_OK, Some ECS_HIDDEN)"
proof -
  note st = GetState_hidden_or_enabled
  have a: "GetState None True ptr = (S_OK, Some ECS_HIDDEN)"
    using st[of None True] by (simp add: prod_eq_iff)
  have e: "snd (GetCount (selection_of_paths [])) = 0"
    by (simp add: selection_of_paths_def)
  have b: "GetState (Some (selection_of_paths [])) True ptr = (S_OK, Some ECS_HIDDEN)"
    using st[of "Some (selection_of_paths [])" True] e by (simp add: prod_eq_iff)
  have w: "0 < wcslen (L ''D:'' @ [BACKSLASH])"
    by (simp add: L_def wcslen_def wcs_def)
  have c: "GetState (Some drive_D) False ptr = (S_OK, Some ECS_ENABLED)"
    using st[of "Some drive_D" False] drive_D_validates w
    by (simp add: prod_eq_iff SUCCEEDED_constants)
  have f: "FAILED (fst (GetItemAt (selection_of_paths [] \<lparr>GetCount := (S_OK, 1)\<rparr>) 0))"
    by (simp add: selection_of_paths_def FAILED_constants)
  have d: "GetState (Some (selection_of_paths [] \<lparr>GetCount := (S_OK, 1)\<rparr>)) False ptr =
       (S_OK, Some ECS_HIDDEN)"
    using st[of "Some (selection_of_paths [] \<lparr>GetCount := (S_OK, 1)\<rparr>)" False] f
    by (simp add: prod_eq_iff)
  from a b c d e f show ?thesis by simp
qed

section \<open>GetIcon\<close>

lemma L_icon_suffix: "0 \<notin> set (L '',0'')" "length (L '',0'') = 2"
  by (simp_all add: L_def)

lemma icon_format:
  assumes "0 \<notin> set path" and "length path < MAX_PATH"
  shows "snd (StringCchPrintf (wcslen path + 10) (wcs path @ L '',0'')) =
           Some (path @ L '',0'')"
proof -
  have nz: "0 \<notin> set (path @ L '',0'')" using assms L_icon_suffix by simp
  have "StringCchPrintf (length path + 10) (path @ L '',0'') = (S_OK, Some (path @ L '',0''))"
    unfolding StringCchPrintf_def
    using assms(2) wcs_idem[OF nz] wcslen_no_nul[OF nz] L_icon_suffix(2)
    by (simp add: StringCchCopy_def MAX_PATH_def STRSAFE_MAX_CCH_def)
  then show ?thesis
    by (simp add: wcs_idem[OF assms(1)] wcslen_no_nul[OF assms(1)])
qed

lemma GetModuleFileNameW_fits:
  assumes "GetModuleFileNameW m MAX_PATH = (len, path)" and "len < MAX_PATH"
  shows "0 \<notin> set path \<and> length path < MAX_PATH \<and> path = wcs m \<and> len = wcslen m"
  using assms wcs_no_nul[of m]
  by (auto simp: GetModuleFileNameW_def wcslen_def split: if_splits)

lemma GetIcon_exe:
  assumes "GetExePath (registry env) ptr MAX_PATH = (hr, Some P)" and "SUCCEEDED hr"
  shows "GetIcon env psiItemArray ptr =
           (if CoTaskMemAlloc env ((length P + 10) * 2) = None
            then (E_OUTOFMEMORY, Some None)
            else (S_OK, Some (Some (P @ L '',0''))))"
proof -
  from GetExePath_Some[OF assms(1)] have p: "0 \<notin> set P" "length P < MAX_PATH" by auto
  show ?thesis
    using assms icon_format[OF p]
    by (auto simp: GetIcon_def Let_def split_beta local_buffer_def allocated_buffer_def
        wcslen_no_nul[OF p(1)] split: option.splits)
qed

lemma GetIcon_dll:
  assumes "FAILED (fst (GetExePath (registry env) ptr MAX_PATH))"
    and "g_hInstance env = Some m" and "GetModuleFileNameW m MAX_PATH = (len, path)"
    and "0 < len" and "len < MAX_PATH"
  shows "GetIcon env psiItemArray ptr =
           (if CoTaskMemAlloc env ((length path + 10) * 2) = None
            then (E_OUTOFMEMORY, Some None)
            else (S_OK, Some (Some (path @ L '',0''))))"
proof -
  from GetModuleFileNameW_fits[OF assms(3) assms(5)]
  have p: "0 \<notin> set path" "length path < MAX_PATH" by auto
  show ?thesis
    using assms icon_format[OF p]
    by (auto simp: GetIcon_def Let_def split_beta SUCCEEDED_iff allocated_buffer_def
        wcslen_no_nul[OF p(1)] split: option.splits)
qed

lemma GetIcon_none:
  assumes "FAILED (fst (GetExePath (registry env) ptr MAX_PATH))"
    and "g_hInstance env = None \<or>
         (\<exists>m. g_hInstance env = Some m \<and>
              (fst (GetModuleFileNameW m MAX_PATH) = 0 \<or>
               MAX_PATH \<le> fst (GetModuleFileNameW m MAX_PATH)))"
  shows "GetIcon env psiItemArray ptr = (S_FALSE, Some None)"
  using assms
  by (auto simp: GetIcon_def Let_def split_beta SUCCEEDED_iff)

text \<open>
  Claim C8, amended. \<open>GetIcon\<close> called with a non-null \<open>ppszIcon\<close>, when the COM allocator
  supplies the output string: if \<open>GetExePath\<close> succeeds with the path \<open>P\<close>, it returns \<open>S_OK\<close>
  and stores \<open>P\<close> followed by ",0"; if \<open>GetExePath\<close> fails and the module file name of
  \<open>g_hInstance\<close> is obtained (a length above zero and below \<open>MAX_PATH\<close>), it returns \<open>S_OK\<close>
  and stores that name followed by ",0"; if \<open>GetExePath\<close> fails and \<open>g_hInstance\<close> is null or
  the module file name is not obtained, it returns \<open>S_FALSE\<close>, which is not a failure code,
  and stores a null pointer. When the allocator returns null in one of the first two
  cases, it returns \<open>E_OUTOFMEMORY\<close> and stores a null pointer.
\<close>

theorem GetIcon_paths_when_allocated:
  "(\<forall>hr P. GetExePath (registry env) ptr MAX_PATH = (hr, Some P) \<and> SUCCEEDED hr \<and>
           CoTaskMemAlloc env ((length P + 10) * 2) \<noteq> None \<longrightarrow>
           GetIcon env psiItemArray ptr = (S_OK, Some (Some (P @ L '',0''))))
   \<and> (\<forall>m len path.
           FAILED (fst (GetExePath (registry env) ptr MAX_PATH)) \<and>
           g_hInstance env = Some m \<and> GetModuleFileNameW m MAX_PATH = (len, path) \<and>
           0 < len \<and> len < MAX_PATH \<and>
           CoTaskMemAlloc env ((length path + 10) * 2) \<noteq> None \<longrightarrow>
           GetIcon env psiItemArray ptr = (S_OK, Some (Some (path @ L '',0''))))
   \<and> (FAILED (fst (GetExePath (registry env) ptr MAX_PATH)) \<and>
        (g_hInstance env = None \<or>
         (\<exists>m. g_hInstance env = Some m \<and>
              (fst (GetModuleFileNameW m MAX_PATH) = 0 \<or>
               MAX_PATH \<le> fst (GetModuleFileNameW m MAX_PATH)))) \<longrightarrow>
           GetIcon env psiItemArray ptr = (S_FALSE, Some None))
   \<and> \<not> FAILED S_FALSE
   \<and> (\<forall>hr P. GetExePath (registry env) ptr MAX_PATH = (hr, Some P) \<and> SUCCEEDED hr \<and>
           CoTaskMemAlloc env ((length P + 10) * 2) = None \<longrightarrow>
           GetIcon env psiItemArray ptr = (E_OUTOFMEMORY, Some None))
   \<and> (\<forall>m len path.
           FAILED (fst (GetExePath (registry env) ptr MAX_PATH)) \<and>
           g_hInstance env = Some m \<and> GetModuleFileNameW m MAX_PATH = (len, path) \<and>
           0 < len \<and> len < MAX_PATH \<and>
           CoTaskMemAlloc env ((length path + 10) * 2) = None \<longrightarrow>
           GetIcon env psiItemArray ptr = (E_OUTOFMEMORY, Some None))"
proof -
  have 1: "\<forall>hr P. GetExePath (registry env) ptr MAX_PATH = (hr, Some P) \<and> SUCCEEDED hr \<and>
           CoTaskMemAlloc env ((length P + 10) * 2) \<noteq> None \<longrightarrow>
           GetIcon env psiItemArray ptr = (S_OK, Some (Some (P @ L '',0'')))"
    using GetIcon_exe[of env _ _ psiItemArray] by simp
  have 2: "\<forall>m len path.
           FAILED (fst (GetExePath (registry env) ptr MAX_PATH)) \<and>
           g_hInstance env = Some m \<and> GetModuleFileNameW m MAX_PATH = (len, path) \<and>
           0 < len \<and> len < MAX_PATH \<and>
           CoTaskMemAlloc env ((length path + 10) * 2) \<noteq> None \<longrightarrow>
           GetIcon env psiItemArray ptr = (S_OK, Some (Some (path @ L '',0'')))"
    using GetIcon_dll[of env _ _ _ psiItemArray] by simp
  have 3: "FAILED (fst (GetExePath (registry env) ptr MAX_PATH)) \<and>
        (g_hInstance env = None \<or>
         (\<exists>m. g_hInstance env = Some m \<and>
              (fst (GetModuleFileNameW m MAX_PATH) = 0 \<or>
               MAX_PATH \<le> fst (GetModuleFileNameW m MAX_PATH)))) \<longrightarrow>
           GetIcon env psiItemArray ptr = (S_FALSE, Some None)"
    using GetIcon_none[of env psiItemArray] by blast
  have 5: "\<forall>hr P. GetExePath (registry env) ptr MAX_PATH = (hr, Some P) \<and> SUCCEEDED hr \<and>
           CoTaskMemAlloc env ((length P + 10) * 2) = None \<longrightarrow>
           GetIcon env psiItemArray ptr = (E_OUTOFMEMORY, Some None)"
    using GetIcon_exe[of env _ _ psiItemArray] by simp
  have 6: "\<forall>m len path.
           FAILED (fst (GetExePath (registry env) ptr MAX_PATH)) \<and>
           g_hInstance env = Some m \<and> GetModuleFileNameW m MAX_PATH = (len, path) \<and>
           0 < len \<and> len < MAX_PATH \<and>
           CoTaskMemAlloc env ((length path + 10) * 2) = None \<longrightarrow>
           GetIcon env psiItemArray ptr = (E_OUTOFMEMORY, Some None)"
    using GetIcon_dll[of env _ _ _ psiItemArray] by simp
  from 1 2 3 5 6 FAILED_constants(2) show ?thesis by blast
qed

lemma shell_dll_name:
  "GetModuleFileNameW shell_dll MAX_PATH = (length shell_dll, shell_dll)"
  "0 < length shell_dll" "length shell_dll < MAX_PATH" "shell_dll \<noteq> []"
  by (simp_all add: GetModuleFileNameW_def shell_dll_def L_def wcslen_def wcs_def MAX_PATH_def)

lemma environment_of_simps:
  "g_hInstance (environment_of reg) = Some shell_dll"
  "CoTaskMemAlloc (environment_of reg) cb \<noteq> None"
  "registry (no_memory env) = registry env"
  "CoTaskMemAlloc (no_memory env) cb = None"
  by (simp_all add: environment_of_def no_memory_def)

theorem GetIcon_paths_when_allocated_witness:
  "GetExePath (registry (environment_of configured_machine)) ptr MAX_PATH = (S_OK, Some tool_exe)
   \<and> GetIcon (environment_of configured_machine) None ptr =
       (S_OK, Some (Some (tool_exe @ L '',0'')))
   \<and> FAILED (fst (GetExePath (registry (environment_of unconfigured)) ptr MAX_PATH))
   \<and> GetIcon (environment_of unconfigured) None ptr =
       (S_OK, Some (Some (shell_dll @ L '',0'')))
   \<and> GetIcon (environment_of unconfigured \<lparr>g_hInstance := None\<rparr>) None ptr =
       (S_FALSE, Some None)
   \<and> GetIcon (no_memory (environment_of unconfigured)) None ptr = (E_OUTOFMEMORY, Some None)
   \<and> GetIcon (no_memory (environment_of configured_machine)) None ptr =
       (E_OUTOFMEMORY, Some None)"
proof -
  note icon = GetIcon_paths_when_allocated
  have P: "GetExePath (registry (environment_of configured_machine)) ptr MAX_PATH =
      (S_OK, Some tool_exe)"
    by (simp only: registry_environment_of GetExePath_configured_machine)
  have 1: "GetIcon (environment_of configured_machine) None ptr =
       (S_OK, Some (Some (tool_exe @ L '',0'')))"
    using icon[of "environment_of configured_machine" None]
    by (simp add: P environment_of_simps SUCCEEDED_constants)
  have F: "FAILED (fst (GetExePath (registry (environment_of unconfigured)) ptr MAX_PATH))"
    by (simp add: registry_environment_of GetExePath_unconfigured FAILED_constants)
  have 2: "GetIcon (environment_of unconfigured) None ptr =
       (S_OK, Some (Some (shell_dll @ L '',0'')))"
    using icon[of "environment_of unconfigured" None] F
    by (simp add: shell_dll_name environment_of_simps)
  have F': "FAILED (fst (GetExePath
       (registry (environment_of unconfigured \<lparr>g_hInstance := None\<rparr>)) ptr MAX_PATH))"
    using F by simp
  have 3: "GetIcon (environment_of unconfigured \<lparr>g_hInstance := None\<rparr>) None ptr =
       (S_FALSE, Some None)"
    using icon[of "environment_of unconfigured \<lparr>g_hInstance := None\<rparr>" None] F'
    by simp
  have F'': "FAILED (fst (GetExePath
       (registry (no_memory (environment_of unconfigured))) ptr MAX_PATH))"
    using F by (simp add: environment_of_simps)
  have 4: "GetIcon (no_memory (environment_of unconfigured)) None ptr =
       (E_OUTOFMEMORY, Some None)"
    using icon[of "no_memory (environment_of unconfigured)" None] F''
    by (simp add: shell_dll_name environment_of_def no_memory_def)
  have 5: "GetIcon (no_memory (environment_of configured_machine)) None ptr =
       (E_OUTOFMEMORY, Some None)"
    using icon[of "no_memory (environment_of configured_machine)" None]
    by (simp add: P environment_of_simps SUCCEEDED_constants)
  from P 1 F 2 3 4 5 show ?thesis by simp
qed

text \<open>
  The claim as first stated leaves the allocator out: with the tool path resolved and no
  memory, the icon string is not produced.
\<close>

theorem GetIcon_out_of_memory_counterexample:
  "GetExePath (registry (no_memory (environment_of configured_machine))) ptr MAX_PATH =
     (S_OK, Some tool_exe)
   \<and> GetIcon (no_memory (environment_of configured_machine)) None ptr =
       (E_OUTOFMEMORY, Some None)
   \<and> GetIcon (no_memory (environment_of configured_machine)) None ptr \<noteq>
       (S_OK, Some (Some (tool_exe @ L '',0'')))"
proof -
  have P: "GetExePath (registry (no_memory (environment_of configured_machine))) ptr MAX_PATH =
     (S_OK, Some tool_exe)"
    by (simp only: environment_of_simps registry_environment_of GetExePath_configured_machine)
  have "GetIcon (no_memory (environment_of configured_machine)) None ptr =
       (E_OUTOFMEMORY, Some None)"
    by (subst GetIcon_exe[OF P SUCCEEDED_constants(1)]) (simp add: environment_of_simps)
  with P show ?thesis by (simp add: HRESULT_distinct)
qed


section \<open>The second copy: no per-user root, no module-path fallback\<close>

lemma ReadExePathFromRegistry_DiskBench_user_only:
  "ReadExePathFromRegistry_DiskBench configured_user MAX_PATH = (E_FAIL, None)"
  unfolding ReadExePathFromRegistry_DiskBench_eq
  by (simp add: configured_user_def CONFIG_REG_PATH_lookup)

lemma GetIcon_DiskBench_no_fallback:
  "GetIcon_DiskBench (environment_of unconfigured) None ptr = (S_FALSE, Some None)"
proof -
  have "GetExePath_DiskBench unconfigured ptr MAX_PATH = (E_FAIL, None)"
    unfolding GetExePath_DiskBench_def ReadExePathFromRegistry_DiskBench_eq
    by (simp add: unconfigured_def CONFIG_REG_PATH_lookup MAX_PATH_def)
  then show ?thesis
    by (simp add: GetIcon_DiskBench_def registry_environment_of SUCCEEDED_constants)
qed

section \<open>Reference counting\<close>

lemma object_at_store:
  "object_at (store_object p obj h) q =
     (if q = p \<and> p < length (cells h) then Some obj else object_at h q)"
  by (simp add: object_at_def store_object_def)

lemma length_cells_store: "length (cells (store_object p obj h)) = length (cells h)"
  by (simp add: store_object_def)

lemma destructed_store: "destructed (store_object p obj h) = destructed h"
  by (simp add: store_object_def)

lemma store_object_twice: "store_object p b (store_object p a h) = store_object p b h"
  by (simp add: store_object_def)

lemma store_object_same: "object_at h p = Some obj \<Longrightarrow> store_object p obj h = h"
proof -
  assume "object_at h p = Some obj"
  then have "cells h ! p = Some obj" by (auto simp: object_at_def split: if_splits)
  then have "(cells h)[p := Some obj] = cells h" by (metis list_update_id)
  then show ?thesis by (simp add: store_object_def)
qed

lemma object_at_live: "object_at h p = Some obj \<Longrightarrow> p < length (cells h)"
  by (auto simp: object_at_def split: if_splits)

lemma object_at_delete:
  "object_at (delete_object p h) q = (if q = p then None else object_at h q)"
  by (auto simp: object_at_def delete_object_def)

lemma destructed_delete: "destructed (delete_object p h) = destructed h @ [p]"
  by (simp add: delete_object_def)

lemma new_ExplorerCommand_result:
  "new_ExplorerCommand True h =
     (Some (length (cells h)), h\<lparr>cells := cells h @ [Some \<lparr>m_refCount = 1\<rparr>]\<rparr>)"
  by (simp add: new_ExplorerCommand_def)

lemma object_at_new:
  "object_at (h\<lparr>cells := cells h @ [Some obj]\<rparr>) q =
     (if q = length (cells h) then Some obj else object_at h q)"
  by (auto simp: object_at_def nth_append)

lemma AddRef_live:
  assumes "object_at h this = Some obj"
  shows "AddRef this h =
           Some (m_refCount obj + 1, store_object this (obj\<lparr>m_refCount := m_refCount obj + 1\<rparr>) h)"
  using assms by (simp add: AddRef_def Let_def)

lemma Release_live:
  assumes "object_at h this = Some obj"
  shows "Release this h =
           Some (m_refCount obj - 1,
                 if m_refCount obj - 1 = 0
                 then delete_object this (store_object this (obj\<lparr>m_refCount := 0\<rparr>) h)
                 else store_object this (obj\<lparr>m_refCount := m_refCount obj - 1\<rparr>) h)"
  using assms by (simp add: Release_def Let_def)

lemma method_dead:
  assumes "object_at h this = None"
  shows "AddRef this h = None" and "Release this h = None"
  using assms by (simp_all add: AddRef_def Release_def)

lemma calls_AddRef:
  assumes "object_at h this = Some obj"
  shows "calls AddRef n this h =
           Some (store_object this (obj\<lparr>m_refCount := m_refCount obj + of_nat n\<rparr>) h)"
  using assms
proof (induction n arbitrary: h obj)
  case 0
  then show ?case by (simp add: store_object_same)
next
  case (Suc n)
  let ?obj = "obj\<lparr>m_refCount := m_refCount obj + 1\<rparr>"
  have live: "object_at (store_object this ?obj h) this = Some ?obj"
    using Suc.prems by (simp add: object_at_store object_at_live)
  show ?case
    using Suc.IH[OF live]
    by (simp add: AddRef_live[OF Suc.prems] store_object_twice ac_simps)
qed

lemma of_nat_Suc_not_0:
  assumes "Suc n < 2 ^ 32"
  shows "(of_nat (Suc n) :: 32 word) \<noteq> 0"
proof
  assume "(of_nat (Suc n) :: 32 word) = 0"
  then have "2 ^ 32 dvd Suc n" by (simp add: word_of_nat_eq_0_iff del: of_nat_Suc)
  with assms show False by (auto dest: dvd_imp_le)
qed

lemma calls_Release:
  assumes "object_at h this = Some obj" and "m_refCount obj = of_nat (Suc n)"
    and "n < 2 ^ 32"
  shows "(\<forall>k \<le> n. calls Release k this h =
            Some (store_object this (obj\<lparr>m_refCount := of_nat (Suc n - k)\<rparr>) h))
       \<and> calls Release (Suc n) this h =
            Some (delete_object this (store_object this (obj\<lparr>m_refCount := 0\<rparr>) h))"
  using assms
proof (induction n arbitrary: h obj)
  case 0
  have "obj\<lparr>m_refCount := 1\<rparr> = obj" using "0.prems"(2) by simp
  then show ?case
    using "0.prems" by (simp add: Release_live store_object_same)
next
  case (Suc n)
  let ?obj = "obj\<lparr>m_refCount := of_nat (Suc n)\<rparr>"
  let ?h = "store_object this ?obj h"
  have dec: "m_refCount obj - 1 = of_nat (Suc n)"
    using Suc.prems(2) by simp
  have nz: "(of_nat (Suc n) :: 32 word) \<noteq> 0"
    using Suc.prems(3) by (intro of_nat_Suc_not_0) simp
  have step: "Release this h = Some (of_nat (Suc n), ?h)"
    using Release_live[OF Suc.prems(1)] dec nz by (simp del: of_nat_Suc)
  have live: "object_at ?h this = Some ?obj"
    using Suc.prems(1) by (simp add: object_at_store object_at_live)
  have "m_refCount ?obj = of_nat (Suc n)" by simp
  from Suc.IH[OF live this] Suc.prems(3)
  have IH: "\<forall>k \<le> n. calls Release k this ?h =
              Some (store_object this (obj\<lparr>m_refCount := of_nat (Suc n - k)\<rparr>) h)"
    and IH': "calls Release (Suc n) this ?h =
              Some (delete_object this (store_object this (obj\<lparr>m_refCount := 0\<rparr>) h))"
    by (simp_all add: store_object_twice del: of_nat_Suc)
  have "calls Release k this h =
          Some (store_object this (obj\<lparr>m_refCount := of_nat (Suc (Suc n) - k)\<rparr>) h)"
    if "k \<le> Suc n" for k
  proof (cases k)
    case 0
    have "obj\<lparr>m_refCount := of_nat (Suc (Suc n))\<rparr> = obj" using Suc.prems(2) by simp
    with 0 show ?thesis using Suc.prems(1) by (simp add: store_object_same del: of_nat_Suc)
  next
    case (Suc j)
    with that have "j \<le> n" by simp
    with IH have "calls Release j this ?h =
              Some (store_object this (obj\<lparr>m_refCount := of_nat (Suc n - j)\<rparr>) h)" by blast
    with Suc step show ?thesis by (simp del: of_nat_Suc)
  qed
  moreover have "calls Release (Suc (Suc n)) this h =
      Some (delete_object this (store_object this (obj\<lparr>m_refCount := 0\<rparr>) h))"
    using step IH' by (simp del: of_nat_Suc)
  ultimately show ?case by blast
qed

text \<open>
  Claim C3, amended. For an instance just constructed at the address \<open>this\<close>: its count is 1.
  For every heap in which the instance is alive, \<open>AddRef\<close> returns the count plus one and
  stores it, and \<open>Release\<close> returns the count minus one, destroys the instance exactly
  when that is zero (the address is freed and one destructor run is recorded) and
  otherwise stores it. So \<open>N\<close> calls of \<open>AddRef\<close> followed by \<open>N + 1\<close> calls of \<open>Release\<close>
  leave the instance alive through the first \<open>N\<close> releases and destroy it, exactly once,
  at the last one; after that no method call on it has a defined result. The count is a
  32-bit \<open>LONG\<close> that wraps around, so this is for \<open>N\<close> below \<open>2 ^ 32\<close>.
\<close>

theorem reference_count_lifecycle:
  assumes "new_ExplorerCommand True h = (Some this, h0)" and "N < 2 ^ 32"
  shows "object_at h0 this = Some \<lparr>m_refCount = 1\<rparr>
   \<and> (\<forall>g obj. object_at g this = Some obj \<longrightarrow>
        (\<exists>g'. AddRef this g = Some (m_refCount obj + 1, g') \<and>
              object_at g' this = Some (obj\<lparr>m_refCount := m_refCount obj + 1\<rparr>) \<and>
              destructed g' = destructed g))
   \<and> (\<forall>g obj. object_at g this = Some obj \<longrightarrow>
        (\<exists>g'. Release this g = Some (m_refCount obj - 1, g') \<and>
              (m_refCount obj - 1 = 0 \<longrightarrow>
                 object_at g' this = None \<and> destructed g' = destructed g @ [this]) \<and>
              (m_refCount obj - 1 \<noteq> 0 \<longrightarrow>
                 object_at g' this = Some (obj\<lparr>m_refCount := m_refCount obj - 1\<rparr>) \<and>
                 destructed g' = destructed g)))
   \<and> (\<exists>g1 g2.
         calls AddRef N this h0 = Some g1 \<and>
         object_at g1 this = Some \<lparr>m_refCount = of_nat (N + 1)\<rparr> \<and>
         (\<forall>k \<le> N. \<exists>g. calls Release k this g1 = Some g \<and>
                   object_at g this = Some \<lparr>m_refCount = of_nat (N + 1 - k)\<rparr> \<and>
                   destructed g = destructed h) \<and>
         calls Release (N + 1) this g1 = Some g2 \<and>
         object_at g2 this = None \<and> destructed g2 = destructed h @ [this] \<and>
         AddRef this g2 = None \<and> Release this g2 = None)"
proof -
  from assms(1) have addr: "this = length (cells h)"
    and h0: "h0 = h\<lparr>cells := cells h @ [Some \<lparr>m_refCount = 1\<rparr>]\<rparr>"
    by (simp_all add: new_ExplorerCommand_result)
  have a: "object_at h0 this = Some \<lparr>m_refCount = 1\<rparr>"
    by (simp add: addr h0 object_at_new)
  have b: "\<exists>g'. AddRef this g = Some (m_refCount obj + 1, g') \<and>
              object_at g' this = Some (obj\<lparr>m_refCount := m_refCount obj + 1\<rparr>) \<and>
              destructed g' = destructed g"
    if "object_at g this = Some obj" for g obj
    using AddRef_live[OF that] object_at_live[OF that]
    by (simp add: object_at_store destructed_store)
  have c: "\<exists>g'. Release this g = Some (m_refCount obj - 1, g') \<and>
              (m_refCount obj - 1 = 0 \<longrightarrow>
                 object_at g' this = None \<and> destructed g' = destructed g @ [this]) \<and>
              (m_refCount obj - 1 \<noteq> 0 \<longrightarrow>
                 object_at g' this = Some (obj\<lparr>m_refCount := m_refCount obj - 1\<rparr>) \<and>
                 destructed g' = destructed g)"
    if "object_at g this = Some obj" for g obj
    using Release_live[OF that] object_at_live[OF that]
    by (simp add: object_at_store destructed_store object_at_delete destructed_delete)
  let ?g1 = "store_object this \<lparr>m_refCount = of_nat (N + 1)\<rparr> h0"
  let ?g2 = "delete_object this (store_object this \<lparr>m_refCount = 0\<rparr> ?g1)"
  have live0: "this < length (cells h0)" using a by (rule object_at_live)
  have g1: "calls AddRef N this h0 = Some ?g1"
    using calls_AddRef[OF a, of N] by (simp add: ac_simps)
  have live1: "object_at ?g1 this = Some \<lparr>m_refCount = of_nat (N + 1)\<rparr>"
    using live0 by (simp add: object_at_store)
  have d0: "destructed ?g1 = destructed h"
    by (simp add: destructed_store h0)
  from calls_Release[OF live1, of N] assms(2)
  have rel: "\<forall>k \<le> N. calls Release k this ?g1 =
            Some (store_object this (\<lparr>m_refCount = of_nat (Suc N - k)\<rparr>) ?g1)"
    and last: "calls Release (N + 1) this ?g1 = Some ?g2"
    by simp_all
  have e: "\<exists>g. calls Release k this ?g1 = Some g \<and>
                   object_at g this = Some \<lparr>m_refCount = of_nat (N + 1 - k)\<rparr> \<and>
                   destructed g = destructed h" if "k \<le> N" for k
    using rel that live0 d0
    by (simp add: object_at_store destructed_store length_cells_store store_object_twice)
  have dead: "object_at ?g2 this = None" by (simp add: object_at_delete)
  have d2: "destructed ?g2 = destructed h @ [this]"
    by (simp add: destructed_delete destructed_store h0)
  have "calls AddRef N this h0 = Some ?g1 \<and>
         object_at ?g1 this = Some \<lparr>m_refCount = of_nat (N + 1)\<rparr> \<and>
         (\<forall>k \<le> N. \<exists>g. calls Release k this ?g1 = Some g \<and>
                   object_at g this = Some \<lparr>m_refCount = of_nat (N + 1 - k)\<rparr> \<and>
                   destructed g = destructed h) \<and>
         calls Release (N + 1) this ?g1 = Some ?g2 \<and>
         object_at ?g2 this = None \<and> destructed ?g2 = destructed h @ [this] \<and>
         AddRef this ?g2 = None \<and> Release this ?g2 = None"
    using g1 live1 e last dead d2 method_dead[OF dead] by blast
  then have d: "\<exists>g1 g2.
         calls AddRef N this h0 = Some g1 \<and>
         object_at g1 this = Some \<lparr>m_refCount = of_nat (N + 1)\<rparr> \<and>
         (\<forall>k \<le> N. \<exists>g. calls Release k this g1 = Some g \<and>
                   object_at g this = Some \<lparr>m_refCount = of_nat (N + 1 - k)\<rparr> \<and>
                   destructed g = destructed h) \<and>
         calls Release (N + 1) this g1 = Some g2 \<and>
         object_at g2 this = None \<and> destructed g2 = destructed h @ [this] \<and>
         AddRef this g2 = None \<and> Release this g2 = None"
    by blast
  from a b c d show ?thesis by blast
qed

theorem reference_count_lifecycle_witness:
  "new_ExplorerCommand True empty_heap =
     (Some 0, \<lparr>cells = [Some \<lparr>m_refCount = 1\<rparr>], destructed = []\<rparr>)
   \<and> (2::nat) < 2 ^ 32
   \<and> (\<exists>g1 g2.
         calls AddRef 2 0 \<lparr>cells = [Some \<lparr>m_refCount = 1\<rparr>], destructed = []\<rparr> = Some g1 \<and>
         object_at g1 0 = Some \<lparr>m_refCount = 3\<rparr> \<and>
         calls Release 3 0 g1 = Some g2 \<and>
         object_at g2 0 = None \<and> destructed g2 = [0] \<and>
         AddRef 0 g2 = None \<and> Release 0 g2 = None)
   \<and> (\<exists>g. AddRef 0 one_instance = Some (2, g) \<and> object_at g 0 = Some \<lparr>m_refCount = 2\<rparr>)
   \<and> (\<exists>g. Release 0 one_instance = Some (0, g) \<and> object_at g 0 = None \<and>
           destructed g = [0])"
proof -
  have new: "new_ExplorerCommand True empty_heap =
     (Some 0, \<lparr>cells = [Some \<lparr>m_refCount = 1\<rparr>], destructed = []\<rparr>)"
    by (simp add: new_ExplorerCommand_def empty_heap_def)
  have small: "(2::nat) < 2 ^ 32" by simp
  from reference_count_lifecycle[OF new small]
  have "\<exists>g1 g2.
         calls AddRef 2 0 \<lparr>cells = [Some \<lparr>m_refCount = 1\<rparr>], destructed = []\<rparr> = Some g1 \<and>
         object_at g1 0 = Some \<lparr>m_refCount = 3\<rparr> \<and>
         calls Release 3 0 g1 = Some g2 \<and>
         object_at g2 0 = None \<and> destructed g2 = [0] \<and>
         AddRef 0 g2 = None \<and> Release 0 g2 = None"
    by (simp add: empty_heap_def) blast
  moreover have live: "object_at one_instance 0 = Some \<lparr>m_refCount = 1\<rparr>"
    by (simp add: one_instance_def object_at_def)
  have "\<exists>g. AddRef 0 one_instance = Some (2, g) \<and> object_at g 0 = Some \<lparr>m_refCount = 2\<rparr>"
    using reference_count_lifecycle[OF new small] live by fastforce
  moreover have "\<exists>g. Release 0 one_instance = Some (0, g) \<and> object_at g 0 = None \<and>
           destructed g = [0]"
    using reference_count_lifecycle[OF new small] live
    by (fastforce simp: one_instance_def)
  ultimately show ?thesis using new small by blast
qed

lemma calls_Release_past_zero:
  assumes "object_at h this = Some obj" and "m_refCount obj = 1"
  shows "calls Release (Suc (Suc n)) this h = None"
proof -
  let ?h = "delete_object this (store_object this (obj\<lparr>m_refCount := 0\<rparr>) h)"
  have "Release this h = Some (0, ?h)"
    using Release_live[OF assms(1)] assms(2) by simp
  moreover have "object_at ?h this = None" by (simp add: object_at_delete)
  ultimately show ?thesis by (simp add: method_dead)
qed

lemma wrap: "(of_nat (2 ^ 32) :: 32 word) = 0"
  by simp

text \<open>
  The claim as first stated has no bound on \<open>N\<close>. After \<open>2 ^ 32\<close> calls of \<open>AddRef\<close> the
  count of a new instance is 1 again: the first \<open>Release\<close> destroys it, and the
  \<open>2 ^ 32 + 1\<close> calls of \<open>Release\<close> that are owed cannot all be made.
\<close>

theorem reference_count_wraps_counterexample:
  "calls AddRef (2 ^ 32) 0 one_instance = Some one_instance
   \<and> Release 0 one_instance = Some (0, \<lparr>cells = [None], destructed = [0]\<rparr>)
   \<and> calls Release (2 ^ 32 + 1) 0 one_instance = None"
proof -
  have live: "object_at one_instance 0 = Some \<lparr>m_refCount = 1\<rparr>"
    by (simp add: one_instance_def object_at_def)
  have "calls AddRef (2 ^ 32) 0 one_instance =
          Some (store_object 0
                  (\<lparr>m_refCount = 1\<rparr>\<lparr>m_refCount :=
                      m_refCount \<lparr>m_refCount = 1\<rparr> + of_nat (2 ^ 32)\<rparr>) one_instance)"
    by (rule calls_AddRef[OF live])
  then have a: "calls AddRef (2 ^ 32) 0 one_instance = Some one_instance"
    by (simp only: wrap) (simp add: store_object_same[OF live])
  have b: "Release 0 one_instance = Some (0, \<lparr>cells = [None], destructed = [0]\<rparr>)"
    by (simp add: Release_live[OF live])
       (simp add: one_instance_def store_object_def delete_object_def)
  have "(2::nat) ^ 32 + 1 = Suc (Suc (2 ^ 32 - 1))" by simp
  then have c: "calls Release (2 ^ 32 + 1) 0 one_instance = None"
    using calls_Release_past_zero[OF live, of "2 ^ 32 - 1"] by simp
  from a b c show ?thesis by simp
qed

section \<open>The class factory\<close>

lemma QueryInterface_unsupported:
  assumes "object_at h this = Some obj"
    and "riid \<noteq> IID_IUnknown" and "riid \<noteq> IID_IExplorerCommand"
  shows "QueryInterface this riid ptr h = Some ((E_NOINTERFACE, Some None), h)"
  using assms by (simp add: QueryInterface_def)

text \<open>
  Claim C10, amended. \<open>CreateInstance\<close> with a null \<open>pUnkOuter\<close>, a non-null \<open>ppv\<close>, memory
  for the new object and a \<open>riid\<close> that is neither \<open>IID_IUnknown\<close> nor \<open>IID_IExplorerCommand\<close>:
  the object is constructed at a fresh address with count 1; \<open>QueryInterface\<close> fails with
  \<open>E_NOINTERFACE\<close>, stores null and leaves the heap, hence the count, as it was; the
  factory's \<open>Release\<close> returns 0 and destroys the object. \<open>CreateInstance\<close> returns
  \<open>E_NOINTERFACE\<close> with null at \<open>ppv\<close>; afterwards every address holds what it held
  before the call (no instance is left behind) and exactly one destructor run, of the new
  object, has been added. With a null \<open>ppv\<close> the call returns \<open>E_POINTER\<close>, and without memory
  for the object it returns \<open>E_OUTOFMEMORY\<close> with null at \<open>ppv\<close>; in both cases the heap is
  as it was.
\<close>

theorem CreateInstance_unsupported_interface:
  assumes "riid \<noteq> IID_IUnknown" and "riid \<noteq> IID_IExplorerCommand"
  shows "(\<exists>this h1 h2.
           new_ExplorerCommand True h = (Some this, h1)
         \<and> object_at h this = None
         \<and> object_at h1 this = Some \<lparr>m_refCount = 1\<rparr>
         \<and> QueryInterface this riid ptr h1 = Some ((E_NOINTERFACE, Some None), h1)
         \<and> Release this h1 = Some (0, h2)
         \<and> CreateInstance True nullptr riid ptr h = Some ((E_NOINTERFACE, Some None), h2)
         \<and> (\<forall>q. object_at h2 q = object_at h q)
         \<and> destructed h2 = destructed h @ [this])
       \<and> CreateInstance available nullptr riid nullptr h = Some ((E_POINTER, None), h)
       \<and> CreateInstance False nullptr riid ptr h = Some ((E_OUTOFMEMORY, Some None), h)"
proof -
  let ?p = "length (cells h)"
  let ?h1 = "h\<lparr>cells := cells h @ [Some \<lparr>m_refCount = 1\<rparr>]\<rparr>"
  let ?h2 = "delete_object ?p (store_object ?p \<lparr>m_refCount = 0\<rparr> ?h1)"
  have new: "new_ExplorerCommand True h = (Some ?p, ?h1)"
    by (rule new_ExplorerCommand_result)
  have fresh: "object_at h ?p = None" by (simp add: object_at_def)
  have live: "object_at ?h1 ?p = Some \<lparr>m_refCount = 1\<rparr>"
    by (simp add: object_at_new)
  have qi: "QueryInterface ?p riid ptr ?h1 = Some ((E_NOINTERFACE, Some None), ?h1)"
    using live assms by (rule QueryInterface_unsupported)
  have rel: "Release ?p ?h1 = Some (0, ?h2)"
    using Release_live[OF live] by simp
  have ci: "CreateInstance True nullptr riid ptr h = Some ((E_NOINTERFACE, Some None), ?h2)"
    by (simp add: CreateInstance_def new qi rel)
  have same: "object_at ?h2 q = object_at h q" for q
    using fresh by (simp add: object_at_delete object_at_store object_at_new)
  have log: "destructed ?h2 = destructed h @ [?p]"
    by (simp add: destructed_delete destructed_store)
  have null: "CreateInstance available nullptr riid nullptr h = Some ((E_POINTER, None), h)"
    by (simp add: CreateInstance_def)
  have oom: "CreateInstance False nullptr riid ptr h = Some ((E_OUTOFMEMORY, Some None), h)"
    by (simp add: CreateInstance_def new_ExplorerCommand_def)
  from new fresh live qi rel ci same log null oom show ?thesis by blast
qed

theorem CreateInstance_unsupported_interface_witness:
  "IID_IClassFactory \<noteq> IID_IUnknown \<and> IID_IClassFactory \<noteq> IID_IExplorerCommand
   \<and> CreateInstance True nullptr IID_IClassFactory ptr empty_heap =
       Some ((E_NOINTERFACE, Some None), \<lparr>cells = [None], destructed = [0]\<rparr>)"
proof -
  have ne: "IID_IClassFactory \<noteq> IID_IUnknown" "IID_IClassFactory \<noteq> IID_IExplorerCommand"
    by (simp_all add: IID_IClassFactory_def IID_IUnknown_def IID_IExplorerCommand_def)
  from CreateInstance_unsupported_interface[OF ne, of empty_heap]
  obtain this h1 h2 where new: "new_ExplorerCommand True empty_heap = (Some this, h1)"
    and rel: "Release this h1 = Some (0, h2)"
    and ci: "CreateInstance True nullptr IID_IClassFactory ptr empty_heap =
               Some ((E_NOINTERFACE, Some None), h2)"
    by blast
  from new have "this = 0" "h1 = \<lparr>cells = [Some \<lparr>m_refCount = 1\<rparr>], destructed = []\<rparr>"
    by (simp_all add: new_ExplorerCommand_def empty_heap_def)
  with rel have "h2 = \<lparr>cells = [None], destructed = [0]\<rparr>"
    by (simp add: Release_def object_at_def store_object_def delete_object_def Let_def)
  with ci ne show ?thesis by simp
qed

text \<open>
  The claim as first stated covers every call with a null \<open>pUnkOuter\<close> and such a \<open>riid\<close>:
  with a null \<open>ppv\<close>, or without memory, no object is constructed and another code is
  returned.
\<close>

theorem CreateInstance_guards_counterexample:
  "IID_IClassFactory \<noteq> IID_IUnknown \<and> IID_IClassFactory \<noteq> IID_IExplorerCommand
   \<and> CreateInstance True nullptr IID_IClassFactory nullptr empty_heap =
       Some ((E_POINTER, None), empty_heap)
   \<and> CreateInstance False nullptr IID_IClassFactory ptr empty_heap =
       Some ((E_OUTOFMEMORY, Some None), empty_heap)
   \<and> E_POINTER \<noteq> E_NOINTERFACE \<and> E_OUTOFMEMORY \<noteq> E_NOINTERFACE"
  by (simp add: CreateInstance_def new_ExplorerCommand_def IID_IClassFactory_def IID_IUnknown_def
      IID_IExplorerCommand_def E_POINTER_def E_NOINTERFACE_def E_OUTOFMEMORY_def)

end
